theory Spec2Isabelle
  imports Main
begin

section \<open>Data model\<close>

text \<open>
  The add-on record of \<^verbatim>\<open>src/main.ts\<close>. Its type \<^verbatim>\<open>Addon\<close> is imported from the
  schema module; the pipeline reads and writes only the fields below. The values stored
  under \<^verbatim>\<open>release\<close> and \<^verbatim>\<open>prerelease\<close> and the connection parameters of the two
  hosts are opaque to the pipeline, so they are type parameters \<open>'v\<close>, \<open>'g\<close> and \<open>'s\<close>.
  An optional field that is \<^verbatim>\<open>undefined\<close> is \<open>None\<close>. The host object is tested with
  \<^verbatim>\<open>'github' in addon.host\<close> and \<^verbatim>\<open>'standalone' in addon.host\<close>, so each key is
  modelled as present (\<open>Some\<close>) or absent (\<open>None\<close>) on its own.
\<close>

record package_info =
  package_id :: string
  package_name :: string

record ('g, 's) host_info =
  github :: "'g option"
  standalone :: "'s option"

record ('v, 'g, 's) addon =
  package :: package_info
  host :: "('g, 's) host_info"
  release :: "'v option"
  prerelease :: "'v option"
  addon_names :: "string list option"

text \<open>
  What a file holds. \<open>Plain_Text\<close> is any text that is not JSON (a TOML descriptor, for
  one); \<open>Json_Array\<close> is the JSON text of an array of add-on objects, the shape the
  carry-forward step declares for the file it loads (\<^verbatim>\<open>const existingManifest: Addon[]\<close>);
  \<open>Json_Manifest\<close> is the JSON text of an object whose only key is \<^verbatim>\<open>addons\<close>, the
  shape \<^verbatim>\<open>JSON.stringify({ addons })\<close> produces. \<^verbatim>\<open>JSON.parse\<close> and
  \<^verbatim>\<open>JSON.stringify\<close> are taken to be inverse on these values; indentation is not
  modelled.
\<close>

datatype ('v, 'g, 's) content =
    Plain_Text string
  | Json_Array "('v, 'g, 's) addon list"
  | Json_Manifest "('v, 'g, 's) addon list"

datatype ('v, 'g, 's) node =
    Dir "string list"
  | File "('v, 'g, 's) content"

text \<open>
  The observable effects of a run, in the order they happen: the annotations sent to the
  host (\<^verbatim>\<open>core.error\<close>, \<^verbatim>\<open>core.warning\<close>), the console lines, every read of a file
  and every call of a resolver.
\<close>

datatype ('v, 'g, 's) event =
    Core_Error string "string option"
  | Core_Warning string
  | Console_Error string
  | Console_Log string
  | Console_Log_Manifest "('v, 'g, 's) addon list"
  | Read_File string
  | Github_Call "('v, 'g, 's) addon" 'g
  | Standalone_Call "('v, 'g, 's) addon" 's

record ('v, 'g, 's) world =
  fs :: "string \<Rightarrow> ('v, 'g, 's) node option"
  log :: "('v, 'g, 's) event list"

text \<open>
  Whatever leaves \<^verbatim>\<open>generateManifest\<close> by a \<^verbatim>\<open>throw\<close>: the three errors the
  function creates itself (the add-on directory does not exist, the manifest path is the
  empty string, some add-ons failed validation), an error of a file system call, an
  error of the parser that is not a validation error and is thrown again, the syntax
  error of \<^verbatim>\<open>JSON.parse\<close>, and the type error of \<^verbatim>\<open>for ... of\<close> over a
  value that is not iterable.
\<close>

datatype errno = ENOENT | ENOTDIR | EISDIR

datatype error =
    Addon_Directory_Missing string
  | Invalid_Manifest_Path
  | Validation_Failed
  | Fs_Error errno string
  | Rethrown string
  | Json_Syntax_Error
  | Not_Iterable

text \<open>
  The external collaborators. \<open>addonSchema_parse\<close> stands for
  \<^verbatim>\<open>addonSchema.parse(toml.parse(text))\<close>: it returns the add-on, or throws an error
  that \<^verbatim>\<open>isZodErrorLike\<close> accepts (with its list of messages), or throws anything else.
  A resolver mutates the add-on it is given and returns, or throws after it may have
  written some fields: both results carry the add-on as the resolver left it. A resolver
  is taken to return; a call that never settles is outside the model.
\<close>

datatype 'a parsed = Parsed 'a | Zod_Error "string list" | Other_Error string

datatype 'a outcome = Returned 'a | Threw string 'a

record ('v, 'g, 's) collab =
  addonSchema_parse :: "('v, 'g, 's) content \<Rightarrow> ('v, 'g, 's) addon parsed"
  updateFromGithub :: "('v, 'g, 's) addon \<Rightarrow> 'g \<Rightarrow> ('v, 'g, 's) addon outcome"
  updateStandalone :: "('v, 'g, 's) addon \<Rightarrow> 's \<Rightarrow> ('v, 'g, 's) addon outcome"

section \<open>The file system calls\<close>

text \<open>
  The file system maps a path to what is there: nothing, a directory with the names it
  lists, or a file with its content. \<^verbatim>\<open>fs.existsSync\<close> holds of a path with a file
  or a directory; \<^verbatim>\<open>fs.readdirSync\<close> of a file throws \<^verbatim>\<open>ENOTDIR\<close>,
  \<^verbatim>\<open>fs.readFileSync\<close> of a directory throws \<^verbatim>\<open>EISDIR\<close>, and both throw
  \<^verbatim>\<open>ENOENT\<close> where there is nothing. \<^verbatim>\<open>fs.writeFileSync\<close> creates or replaces
  the file. It throws \<^verbatim>\<open>ENOENT\<close> when the directory the path lies in does not exist,
  \<^verbatim>\<open>ENOTDIR\<close> when a file stands where that directory should be, and \<^verbatim>\<open>EISDIR\<close>
  when the path itself is a directory. \<open>dirname\<close> is the path up to its last slash; a
  path with no slash lies in the working directory and a path whose only slash is the
  first lies in the root, and both of these exist. The listing of the parent directory is
  left as it is, and no run reads a directory after it has written. Permissions are not
  modelled. \<^verbatim>\<open>path.join\<close> is the concatenation with a slash. \<open>emit\<close> appends events
  to the log of effects.
\<close>

definition existsSync :: "('v, 'g, 's) world \<Rightarrow> string \<Rightarrow> bool" where
  "existsSync w p = (case fs w p of None \<Rightarrow> False | Some n \<Rightarrow> True)"

definition readdirSync :: "('v, 'g, 's) world \<Rightarrow> string \<Rightarrow> error + string list" where
  "readdirSync w p =
     (case fs w p of
        None \<Rightarrow> Inl (Fs_Error ENOENT p)
      | Some (File ct) \<Rightarrow> Inl (Fs_Error ENOTDIR p)
      | Some (Dir names) \<Rightarrow> Inr names)"

definition readFileSync :: "('v, 'g, 's) world \<Rightarrow> string \<Rightarrow> error + ('v, 'g, 's) content" where
  "readFileSync w p =
     (case fs w p of
        None \<Rightarrow> Inl (Fs_Error ENOENT p)
      | Some (Dir names) \<Rightarrow> Inl (Fs_Error EISDIR p)
      | Some (File ct) \<Rightarrow> Inr ct)"

definition dirname :: "string \<Rightarrow> string" where
  "dirname p =
     (if CHR ''/'' \<in> set p
      then (case rev (tl (dropWhile (\<lambda>ch. ch \<noteq> CHR ''/'') (rev p))) of
              [] \<Rightarrow> ''/''
            | d # ds \<Rightarrow> d # ds)
      else ''.'')"

definition parent_directory :: "('v, 'g, 's) world \<Rightarrow> string \<Rightarrow> error + unit" where
  "parent_directory w p =
     (if dirname p = ''.'' \<or> dirname p = ''/'' then Inr ()
      else
        (case fs w (dirname p) of
           None \<Rightarrow> Inl (Fs_Error ENOENT p)
         | Some (File ct) \<Rightarrow> Inl (Fs_Error ENOTDIR p)
         | Some (Dir names) \<Rightarrow> Inr ()))"

definition writeFileSync ::
  "('v, 'g, 's) world \<Rightarrow> string \<Rightarrow> ('v, 'g, 's) content \<Rightarrow> (error \<times> ('v, 'g, 's) world) + ('v, 'g, 's) world" where
  "writeFileSync w p ct =
     (case parent_directory w p of
        Inl e \<Rightarrow> Inl (e, w)
      | Inr u \<Rightarrow>
          (case fs w p of
             Some (Dir names) \<Rightarrow> Inl (Fs_Error EISDIR p, w)
           | Some (File old) \<Rightarrow> Inr (w\<lparr>fs := (fs w)(p \<mapsto> File ct)\<rparr>)
           | None \<Rightarrow> Inr (w\<lparr>fs := (fs w)(p \<mapsto> File ct)\<rparr>)))"

text \<open>
  \<open>can_write\<close> holds of the paths at which \<open>writeFileSync\<close> does not throw.
\<close>

definition can_write :: "('v, 'g, 's) world \<Rightarrow> string \<Rightarrow> bool" where
  "can_write w p =
     (case parent_directory w p of
        Inl e \<Rightarrow> False
      | Inr u \<Rightarrow>
          (case fs w p of
             Some (Dir names) \<Rightarrow> False
           | Some (File old) \<Rightarrow> True
           | None \<Rightarrow> True))"

definition path_join :: "string \<Rightarrow> string \<Rightarrow> string" where
  "path_join dir fileName = dir @ ''/'' @ fileName"

definition emit :: "('v, 'g, 's) event list \<Rightarrow> ('v, 'g, 's) world \<Rightarrow> ('v, 'g, 's) world" where
  "emit evs w = w\<lparr>log := log w @ evs\<rparr>"

section \<open>The name aliasing helper\<close>

definition addAddonName :: "('v, 'g, 's) addon \<Rightarrow> string \<Rightarrow> ('v, 'g, 's) addon" where
  "addAddonName addon name =
     (case addon_names addon of
        None \<Rightarrow> addon\<lparr>addon_names := Some [name]\<rparr>
      | Some names \<Rightarrow>
          (if name \<notin> set names
           then addon\<lparr>addon_names := Some (names @ [name])\<rparr>
           else addon))"

section \<open>Host dispatch\<close>

definition update ::
  "('v, 'g, 's) collab \<Rightarrow> ('v, 'g, 's) addon \<Rightarrow> ('v, 'g, 's) event list \<times> ('v, 'g, 's) addon outcome" where
  "update c addon =
     (case github (host addon) of
        Some g \<Rightarrow> ([Github_Call addon g], updateFromGithub c addon g)
      | None \<Rightarrow>
          (case standalone (host addon) of
             Some s \<Rightarrow> ([Standalone_Call addon s], updateStandalone c addon s)
           | None \<Rightarrow> ([], Returned addon)))"

section \<open>The pipeline\<close>

subsection \<open>Discovery and validation\<close>

definition validation_events :: "string \<Rightarrow> string \<Rightarrow> string list \<Rightarrow> ('v, 'g, 's) event list" where
  "validation_events filePath fileName errors =
     concat (map (\<lambda>message. [Core_Error message (Some filePath),
                              Console_Error (fileName @ '': '' @ message)]) errors)"

fun collect ::
  "('v, 'g, 's) collab \<Rightarrow> string \<Rightarrow> string list \<Rightarrow> ('v, 'g, 's) addon list \<Rightarrow> bool \<Rightarrow> ('v, 'g, 's) world
     \<Rightarrow> (error \<times> ('v, 'g, 's) world) + (('v, 'g, 's) addon list \<times> bool \<times> ('v, 'g, 's) world)" where
  "collect c addonsPath [] addons encounteredValidationError w =
     Inr (addons, encounteredValidationError, w)"
| "collect c addonsPath (fileName # rest) addons encounteredValidationError w =
     (let filePath = path_join addonsPath fileName;
          w1 = emit [Read_File filePath] w
      in case readFileSync w filePath of
           Inl e \<Rightarrow> Inl (e, w1)
         | Inr tomlContent \<Rightarrow>
             (case addonSchema_parse c tomlContent of
                Parsed config \<Rightarrow>
                  collect c addonsPath rest (addons @ [config]) encounteredValidationError w1
              | Zod_Error errors \<Rightarrow>
                  collect c addonsPath rest addons True
                    (emit (validation_events filePath fileName errors) w1)
              | Other_Error m \<Rightarrow> Inl (Rethrown m, w1)))"

subsection \<open>Carry-forward merge\<close>

text \<open>
  \<^verbatim>\<open>addons.find(...)\<close> returns a reference to the first element that satisfies the
  predicate; the three assignments that follow mutate that element of the array. The
  model finds the index and updates the list there.
\<close>

fun find_index :: "('a \<Rightarrow> bool) \<Rightarrow> 'a list \<Rightarrow> nat option" where
  "find_index P [] = None"
| "find_index P (x # xs) =
     (if P x then Some 0 else map_option Suc (find_index P xs))"

definition carry ::
  "('v, 'g, 's) addon \<Rightarrow> ('v, 'g, 's) addon \<Rightarrow> ('v, 'g, 's) addon" where
  "carry existingAddon found =
     found\<lparr>release := release existingAddon,
            prerelease := prerelease existingAddon,
            addon_names := addon_names existingAddon\<rparr>"

definition same_id :: "('v, 'g, 's) addon \<Rightarrow> ('v, 'g, 's) addon \<Rightarrow> bool" where
  "same_id existingAddon value =
     (package_id (package value) = package_id (package existingAddon))"

definition removed_warning :: "('v, 'g, 's) addon \<Rightarrow> ('v, 'g, 's) event" where
  "removed_warning existingAddon =
     Core_Warning (''Addon '' @ package_id (package existingAddon) @ '' was removed from manifest!'')"

fun merge_loop ::
  "('v, 'g, 's) addon list \<Rightarrow> ('v, 'g, 's) addon list \<Rightarrow> ('v, 'g, 's) event list
     \<Rightarrow> ('v, 'g, 's) addon list \<times> ('v, 'g, 's) event list" where
  "merge_loop [] addons evs = (addons, evs)"
| "merge_loop (existingAddon # rest) addons evs =
     (case find_index (same_id existingAddon) addons of
        None \<Rightarrow> merge_loop rest addons (evs @ [removed_warning existingAddon])
      | Some i \<Rightarrow> merge_loop rest (addons[i := carry existingAddon (addons ! i)]) evs)"

definition merge_existing ::
  "string option \<Rightarrow> ('v, 'g, 's) addon list \<Rightarrow> ('v, 'g, 's) world
     \<Rightarrow> (error \<times> ('v, 'g, 's) world) + (('v, 'g, 's) addon list \<times> ('v, 'g, 's) world)" where
  "merge_existing manifestPath addons w =
     (case manifestPath of
        None \<Rightarrow> Inr (addons, w)
      | Some p \<Rightarrow>
          (if p \<noteq> [] \<and> existsSync w p then
             (let w1 = emit [Read_File p] w
              in case readFileSync w p of
                   Inl e \<Rightarrow> Inl (e, w1)
                 | Inr (Plain_Text t) \<Rightarrow> Inl (Json_Syntax_Error, w1)
                 | Inr (Json_Manifest m) \<Rightarrow> Inl (Not_Iterable, w1)
                 | Inr (Json_Array existingManifest) \<Rightarrow>
                     (case merge_loop existingManifest addons [] of
                        (addons', evs) \<Rightarrow> Inr (addons', emit evs w1)))
           else Inr (addons, w)))"

subsection \<open>Resolution\<close>

definition failure_events :: "('v, 'g, 's) addon \<Rightarrow> string \<Rightarrow> ('v, 'g, 's) event list" where
  "failure_events addon errorMessage =
     (let message = ''Addon '' @ package_name (package addon) @ '' failed to update: '' @ errorMessage
      in [Core_Error message None, Console_Log message])"

fun update_loop ::
  "('v, 'g, 's) collab \<Rightarrow> ('v, 'g, 's) addon list
     \<Rightarrow> ('v, 'g, 's) addon list \<times> ('v, 'g, 's) event list" where
  "update_loop c [] = ([], [])"
| "update_loop c (addon # rest) =
     (case update c addon of
        (calls, Returned addon') \<Rightarrow>
          (case update_loop c rest of
             (rest', evs) \<Rightarrow> (addon' # rest', calls @ evs))
      | (calls, Threw errorMessage addon') \<Rightarrow>
          (case update_loop c rest of
             (rest', evs) \<Rightarrow> (addon' # rest', calls @ failure_events addon' errorMessage @ evs)))"

subsection \<open>Serialization\<close>

definition output_manifest ::
  "string option \<Rightarrow> ('v, 'g, 's) addon list \<Rightarrow> ('v, 'g, 's) world
     \<Rightarrow> (error \<times> ('v, 'g, 's) world) + ('v, 'g, 's) world" where
  "output_manifest manifestPath addons w =
     (case manifestPath of
        None \<Rightarrow> Inr (emit [Console_Log_Manifest addons] w)
      | Some p \<Rightarrow>
          (if p \<noteq> [] then writeFileSync w p (Json_Manifest addons)
           else Inr (emit [Console_Log_Manifest addons] w)))"

subsection \<open>The whole run\<close>

definition generateManifest ::
  "('v, 'g, 's) collab \<Rightarrow> string \<Rightarrow> string option \<Rightarrow> ('v, 'g, 's) world
     \<Rightarrow> (error \<times> ('v, 'g, 's) world) + ('v, 'g, 's) world" where
  "generateManifest c addonsPath manifestPath w =
     (if \<not> existsSync w addonsPath then Inl (Addon_Directory_Missing addonsPath, w)
      else if manifestPath = Some [] then Inl (Invalid_Manifest_Path, w)
      else
        (case readdirSync w addonsPath of
           Inl e \<Rightarrow> Inl (e, w)
         | Inr fileNames \<Rightarrow>
             (case collect c addonsPath fileNames [] False w of
                Inl failure \<Rightarrow> Inl failure
              | Inr (addons, encounteredValidationError, w1) \<Rightarrow>
                  (if encounteredValidationError then Inl (Validation_Failed, w1)
                   else
                     (case merge_existing manifestPath addons w1 of
                        Inl failure \<Rightarrow> Inl failure
                      | Inr (merged, w2) \<Rightarrow>
                          (case update_loop c merged of
                             (resolved, evs) \<Rightarrow> output_manifest manifestPath resolved (emit evs w2)))))))"

subsection \<open>What the loops do, file by file and entry by entry\<close>

text \<open>
  The body of the scanning loop ends in one of three ways for a file: the add-on is
  pushed, the validation messages are reported and the flag is set, or an error leaves
  the function (\<^verbatim>\<open>readFileSync\<close> throws, or the \<^verbatim>\<open>catch\<close> block rethrows).
  \<open>scan_file\<close> names the three; \<open>file_events\<close> are the effects of one iteration and
  \<open>valid_addons\<close> the add-ons a listing contributes.
\<close>

datatype 'a scanned = is_Valid: Valid 'a | is_Invalid: Invalid "string list" | is_Fatal: Fatal error

definition scan_file ::
  "('v, 'g, 's) collab \<Rightarrow> ('v, 'g, 's) world \<Rightarrow> string \<Rightarrow> ('v, 'g, 's) addon scanned" where
  "scan_file c w filePath =
     (case readFileSync w filePath of
        Inl e \<Rightarrow> Fatal e
      | Inr tomlContent \<Rightarrow>
          (case addonSchema_parse c tomlContent of
             Parsed config \<Rightarrow> Valid config
           | Zod_Error errors \<Rightarrow> Invalid errors
           | Other_Error m \<Rightarrow> Fatal (Rethrown m)))"

definition file_events ::
  "('v, 'g, 's) collab \<Rightarrow> ('v, 'g, 's) world \<Rightarrow> string \<Rightarrow> string \<Rightarrow> ('v, 'g, 's) event list" where
  "file_events c w addonsPath fileName =
     Read_File (path_join addonsPath fileName) #
     (case scan_file c w (path_join addonsPath fileName) of
        Invalid errors \<Rightarrow> validation_events (path_join addonsPath fileName) fileName errors
      | Valid config \<Rightarrow> []
      | Fatal e \<Rightarrow> [])"

definition valid_addons ::
  "('v, 'g, 's) collab \<Rightarrow> ('v, 'g, 's) world \<Rightarrow> string \<Rightarrow> string list \<Rightarrow> ('v, 'g, 's) addon list" where
  "valid_addons c w addonsPath fileNames =
     concat (map (\<lambda>fileName. case scan_file c w (path_join addonsPath fileName) of
                                 Valid config \<Rightarrow> [config]
                               | Invalid errors \<Rightarrow> []
                               | Fatal e \<Rightarrow> []) fileNames)"

definition scan_events ::
  "('v, 'g, 's) collab \<Rightarrow> ('v, 'g, 's) world \<Rightarrow> string \<Rightarrow> string list \<Rightarrow> ('v, 'g, 's) event list" where
  "scan_events c w addonsPath fileNames = concat (map (file_events c w addonsPath) fileNames)"

text \<open>
  The add-on at position \<open>j\<close> after the merge loop: the first add-on of the batch with
  its identifier takes the three fields of the last entry of the loaded manifest with
  that identifier, every other add-on is as it was.
\<close>

definition merged_entry ::
  "('v, 'g, 's) addon list \<Rightarrow> ('v, 'g, 's) addon list \<Rightarrow> nat \<Rightarrow> ('v, 'g, 's) addon" where
  "merged_entry existingManifest addons j =
     (if find_index (same_id (addons ! j)) addons = Some j
      then (case filter (\<lambda>existingAddon. same_id existingAddon (addons ! j)) existingManifest of
              [] \<Rightarrow> addons ! j
            | e # es \<Rightarrow> carry (last (e # es)) (addons ! j))
      else addons ! j)"

fun result_addon :: "'a outcome \<Rightarrow> 'a" where
  "result_addon (Returned a) = a"
| "result_addon (Threw errorMessage a) = a"

fun is_resolver_call :: "('v, 'g, 's) event \<Rightarrow> bool" where
  "is_resolver_call (Github_Call a g) = True"
| "is_resolver_call (Standalone_Call a s) = True"
| "is_resolver_call e = False"

fun is_manifest_output :: "('v, 'g, 's) event \<Rightarrow> bool" where
  "is_manifest_output (Console_Log_Manifest addons) = True"
| "is_manifest_output e = False"

section \<open>Example inputs\<close>

definition mk_addon :: "string \<Rightarrow> string \<Rightarrow> (string, string, string) addon" where
  "mk_addon i n =
     \<lparr>package = \<lparr>package_id = i, package_name = n\<rparr>,
      host = \<lparr>github = Some ''owner/repo'', standalone = None\<rparr>,
      release = None, prerelease = None, addon_names = None\<rparr>"

definition addon_foo :: "(string, string, string) addon" where
  "addon_foo = (mk_addon ''a'' ''A'')\<lparr>addon_names := Some [''Foo'']\<rparr>"

definition addon_both :: "(string, string, string) addon" where
  "addon_both = (mk_addon ''a'' ''A'')\<lparr>host := \<lparr>github = Some ''owner/repo'', standalone = Some ''https://example.org''\<rparr>\<rparr>"

definition addon_nohost :: "(string, string, string) addon" where
  "addon_nohost = (mk_addon ''n'' ''N'')\<lparr>host := \<lparr>github = None, standalone = None\<rparr>\<rparr>"

definition ex_collab :: "(string, string, string) collab" where
  "ex_collab =
     \<lparr>addonSchema_parse = (\<lambda>ct.
         case ct of
           Plain_Text t \<Rightarrow>
             (if t = ''A'' then Parsed (mk_addon ''a'' ''A'')
              else if t = ''B'' then Parsed ((mk_addon ''b'' ''B'')\<lparr>host := \<lparr>github = None, standalone = Some ''https://example.org''\<rparr>\<rparr>)
              else if t = ''C'' then Parsed (mk_addon ''c'' ''C'')
              else if t = ''Z'' then Parsed (mk_addon ''z'' ''Z'')
              else if t = ''bad1'' then Zod_Error [''Required'']
              else if t = ''bad2'' then Zod_Error [''Invalid url'', ''Expected string'']
              else Other_Error ''Syntax error'')
         | Json_Array as \<Rightarrow> Other_Error ''Syntax error''
         | Json_Manifest as \<Rightarrow> Other_Error ''Syntax error''),
      updateFromGithub = (\<lambda>a g. Returned (a\<lparr>release := Some ''2.0.0''\<rparr>)),
      updateStandalone = (\<lambda>a s. Threw ''timeout'' (a\<lparr>prerelease := Some ''3.0.0-rc1''\<rparr>))\<rparr>"

definition mk_world :: "(string \<times> (string, string, string) node) list \<Rightarrow> (string, string, string) world" where
  "mk_world entries = \<lparr>fs = map_of entries, log = []\<rparr>"

definition world_invalid :: "(string, string, string) world" where
  "world_invalid = mk_world
     [(''addons'', Dir [''a.toml'', ''b.toml'', ''c.toml'']),
      (''addons/a.toml'', File (Plain_Text ''A'')),
      (''addons/b.toml'', File (Plain_Text ''bad1'')),
      (''addons/c.toml'', File (Plain_Text ''bad2''))]"

definition world_fatal :: "(string, string, string) world" where
  "world_fatal = mk_world
     [(''addons'', Dir [''b.toml'', ''sub'', ''c.toml'']),
      (''addons/b.toml'', File (Plain_Text ''bad1'')),
      (''addons/sub'', Dir []),
      (''addons/c.toml'', File (Plain_Text ''bad2''))]"

definition old_a :: "(string, string, string) addon" where
  "old_a = (mk_addon ''a'' ''A'')\<lparr>release := Some ''1.2.0'', addon_names := Some [''Foo'']\<rparr>"

definition old_z :: "(string, string, string) addon" where
  "old_z = (mk_addon ''z'' ''Z'')\<lparr>release := Some ''0.9.0''\<rparr>"

definition dup_batch :: "(string, string, string) addon list" where
  "dup_batch = [mk_addon ''c'' ''C'', mk_addon ''a'' ''A'', mk_addon ''a'' ''A again'']"

definition world_manifest :: "(string, string, string) world" where
  "world_manifest = mk_world
     [(''addons'', Dir [''a.toml'', ''c.toml'']),
      (''addons/a.toml'', File (Plain_Text ''A'')),
      (''addons/c.toml'', File (Plain_Text ''C'')),
      (''manifest.json'', File (Json_Array [old_a, old_z]))]"

definition world_first :: "(string, string, string) world" where
  "world_first = mk_world
     [(''addons'', Dir [''a.toml'']),
      (''addons/a.toml'', File (Plain_Text ''A''))]"

definition world_two :: "(string, string, string) world" where
  "world_two = mk_world
     [(''addons'', Dir [''a.toml'', ''z.toml'']),
      (''addons/a.toml'', File (Plain_Text ''A'')),
      (''addons/z.toml'', File (Plain_Text ''Z''))]"

definition world_regular_file :: "(string, string, string) world" where
  "world_regular_file = mk_world [(''addons'', File (Plain_Text ''not a directory''))]"

definition world_resolve :: "(string, string, string) world" where
  "world_resolve = mk_world
     [(''addons'', Dir [''b.toml'', ''c.toml'']),
      (''addons/b.toml'', File (Plain_Text ''B'')),
      (''addons/c.toml'', File (Plain_Text ''C''))]"

definition addon_b :: "(string, string, string) addon" where
  "addon_b = (mk_addon ''b'' ''B'')\<lparr>host := \<lparr>github = None, standalone = Some ''https://example.org''\<rparr>\<rparr>"

section \<open>Lemmas about the stages\<close>

lemma fs_emit [simp]: "fs (emit evs w) = fs w"
  by (simp add: emit_def)

lemma log_emit [simp]: "log (emit evs w) = log w @ evs"
  by (simp add: emit_def)

lemma emit_emit [simp]: "emit evs2 (emit evs1 w) = emit (evs1 @ evs2) w"
  by (simp add: emit_def)

lemma emit_Nil [simp]: "emit [] w = w"
  by (simp add: emit_def)

lemma readFileSync_emit [simp]: "readFileSync (emit evs w) p = readFileSync w p"
  by (simp add: readFileSync_def)

lemma existsSync_emit [simp]: "existsSync (emit evs w) p = existsSync w p"
  by (simp add: existsSync_def)

lemma scan_file_emit [simp]: "scan_file c (emit evs w) p = scan_file c w p"
  by (simp add: scan_file_def)

lemma collect_Cons_scan:
  "collect c p (f # rest) as flag w =
     (case scan_file c w (path_join p f) of
        Valid a \<Rightarrow> collect c p rest (as @ [a]) flag (emit [Read_File (path_join p f)] w)
      | Invalid ms \<Rightarrow>
          collect c p rest as True
            (emit (Read_File (path_join p f) # validation_events (path_join p f) f ms) w)
      | Fatal e \<Rightarrow> Inl (e, emit [Read_File (path_join p f)] w))"
  by (simp add: scan_file_def Let_def split: sum.splits parsed.splits)

lemma collect_no_fatal:
  "\<forall>f\<in>set names. \<not> is_Fatal (scan_file c w (path_join p f)) \<Longrightarrow>
   collect c p names as flag (emit evs w) =
     Inr (as @ valid_addons c w p names,
          flag \<or> (\<exists>f\<in>set names. is_Invalid (scan_file c w (path_join p f))),
          emit (evs @ concat (map (file_events c w p) names)) w)"
proof (induction names arbitrary: as flag evs)
  case Nil
  then show ?case by (simp add: valid_addons_def)
next
  case (Cons f names)
  from Cons.prems have nf: "\<not> is_Fatal (scan_file c w (path_join p f))"
    and rest: "\<forall>f\<in>set names. \<not> is_Fatal (scan_file c w (path_join p f))"
    by simp_all
  note IH = Cons.IH [OF rest]
  have sc: "scan_file c (emit evs w) (path_join p f) = scan_file c w (path_join p f)"
    by simp
  show ?case
  proof (cases "scan_file c w (path_join p f)")
    case (Valid a)
    have "collect c p (f # names) as flag (emit evs w) =
          collect c p names (as @ [a]) flag (emit (evs @ [Read_File (path_join p f)]) w)"
      by (simp only: collect_Cons_scan sc Valid scanned.case emit_emit)
    also note IH
    finally show ?thesis
      using Valid by (simp add: valid_addons_def file_events_def)
  next
    case (Invalid ms)
    have "collect c p (f # names) as flag (emit evs w) =
          collect c p names as True
            (emit (evs @ Read_File (path_join p f) # validation_events (path_join p f) f ms) w)"
      by (simp only: collect_Cons_scan sc Invalid scanned.case emit_emit)
    also note IH
    finally show ?thesis
      using Invalid by (simp add: valid_addons_def file_events_def)
  next
    case (Fatal e)
    with nf show ?thesis by simp
  qed
qed

lemma collect_fatal:
  assumes "\<forall>f\<in>set pre. \<not> is_Fatal (scan_file c w (path_join p f))"
    and "scan_file c w (path_join p f) = Fatal e"
  shows "collect c p (pre @ f # rest) as flag (emit evs w) =
     Inl (e, emit (evs @ concat (map (file_events c w p) pre) @ [Read_File (path_join p f)]) w)"
  using assms(1)
proof (induction pre arbitrary: as flag evs)
  case Nil
  have sc: "scan_file c (emit evs w) (path_join p f) = scan_file c w (path_join p f)"
    by simp
  show ?case
    by (simp only: append_Nil collect_Cons_scan sc assms(2) scanned.case emit_emit
          list.map concat.simps append_Nil2)
next
  case (Cons g pre)
  from Cons.prems have nf: "\<not> is_Fatal (scan_file c w (path_join p g))"
    and rest: "\<forall>f\<in>set pre. \<not> is_Fatal (scan_file c w (path_join p f))"
    by simp_all
  note IH = Cons.IH [OF rest]
  have sc: "scan_file c (emit evs w) (path_join p g) = scan_file c w (path_join p g)"
    by simp
  show ?case
  proof (cases "scan_file c w (path_join p g)")
    case (Valid a)
    have "collect c p ((g # pre) @ f # rest) as flag (emit evs w) =
          collect c p (pre @ f # rest) (as @ [a]) flag (emit (evs @ [Read_File (path_join p g)]) w)"
      by (simp only: append_Cons collect_Cons_scan sc Valid scanned.case emit_emit)
    also note IH
    finally show ?thesis
      using Valid by (simp add: file_events_def)
  next
    case (Invalid ms)
    have "collect c p ((g # pre) @ f # rest) as flag (emit evs w) =
          collect c p (pre @ f # rest) as True
            (emit (evs @ Read_File (path_join p g) # validation_events (path_join p g) g ms) w)"
      by (simp only: append_Cons collect_Cons_scan sc Invalid scanned.case emit_emit)
    also note IH
    finally show ?thesis
      using Invalid by (simp add: file_events_def)
  next
    case (Fatal e)
    with nf show ?thesis by simp
  qed
qed

lemma find_index_Some:
  "find_index P xs = Some i \<Longrightarrow> i < length xs \<and> P (xs ! i) \<and> (\<forall>k<i. \<not> P (xs ! k))"
proof (induction xs arbitrary: i)
  case Nil
  then show ?case by simp
next
  case (Cons x xs)
  show ?case
  proof (cases "P x")
    case True
    with Cons.prems show ?thesis by simp
  next
    case False
    with Cons.prems obtain j where j: "find_index P xs = Some j" and i: "i = Suc j"
      by auto
    from Cons.IH [OF j] False i show ?thesis
      by (auto simp: less_Suc_eq_0_disj)
  qed
qed

lemma find_index_None: "find_index P xs = None \<longleftrightarrow> (\<forall>x\<in>set xs. \<not> P x)"
  by (induction xs) auto

lemma find_index_first:
  "i < length xs \<Longrightarrow> P (xs ! i) \<Longrightarrow> \<forall>k<i. \<not> P (xs ! k) \<Longrightarrow> find_index P xs = Some i"
proof (induction xs arbitrary: i)
  case Nil
  then show ?case by simp
next
  case (Cons x xs)
  show ?case
  proof (cases i)
    case 0
    with Cons.prems show ?thesis by simp
  next
    case (Suc j)
    with Cons.prems have "\<not> P x" by auto
    moreover from Suc Cons.prems have "find_index P xs = Some j"
      by (intro Cons.IH) auto
    ultimately show ?thesis using Suc by simp
  qed
qed

lemma find_index_map_cong:
  "map P xs = map Q ys \<Longrightarrow> find_index P xs = find_index Q ys"
proof (induction xs arbitrary: ys)
  case Nil
  then show ?case by simp
next
  case (Cons x xs)
  then obtain y ys' where ys: "ys = y # ys'" by (cases ys) auto
  with Cons.prems have "P x = Q y" "map P xs = map Q ys'" by simp_all
  with Cons.IH [of ys'] ys show ?case by simp
qed

lemma package_carry [simp]: "package (carry e a) = package a"
  by (simp add: carry_def)

lemma carry_carry [simp]: "carry e (carry e' a) = carry e a"
  by (simp add: carry_def)

lemma same_id_carry [simp]: "same_id e (carry e' a) = same_id e a"
  by (simp add: same_id_def)

lemma same_id_carry_left [simp]: "same_id (carry e' a) = same_id a"
  by (simp add: same_id_def fun_eq_iff)

lemma map_package_update:
  "i < length addons \<Longrightarrow>
   map package (addons[i := carry e (addons ! i)]) = map package addons"
  by (simp add: map_update list_update_same_conv)

lemma find_index_package_cong:
  assumes "map package xs = map package ys"
  shows "find_index (same_id e) xs = find_index (same_id e) ys"
proof -
  let ?f = "\<lambda>p. package_id p = package_id (package e)"
  have "map (same_id e) xs = map ?f (map package xs)"
    by (simp add: same_id_def)
  also have "\<dots> = map ?f (map package ys)"
    by (simp only: assms)
  also have "\<dots> = map (same_id e) ys"
    by (simp add: same_id_def)
  finally show ?thesis by (rule find_index_map_cong)
qed

lemma length_merge_loop: "length (fst (merge_loop old addons evs)) = length addons"
  by (induction old addons evs rule: merge_loop.induct) (auto split: option.splits)

lemma package_merge_loop: "map package (fst (merge_loop old addons evs)) = map package addons"
proof (induction old addons evs rule: merge_loop.induct)
  case (1 addons evs)
  then show ?case by simp
next
  case (2 e rest addons evs)
  show ?case
  proof (cases "find_index (same_id e) addons")
    case None
    with 2 show ?thesis by simp
  next
    case (Some i)
    then have "i < length addons" by (auto dest: find_index_Some)
    with 2 Some show ?thesis by (simp add: map_package_update)
  qed
qed

lemma host_merge_loop: "map host (fst (merge_loop old addons evs)) = map host addons"
proof (induction old addons evs rule: merge_loop.induct)
  case (1 addons evs)
  then show ?case by simp
next
  case (2 e rest addons evs)
  show ?case
  proof (cases "find_index (same_id e) addons")
    case None
    with 2 show ?thesis by simp
  next
    case (Some i)
    then have "i < length addons" by (auto dest: find_index_Some)
    then have "map host (addons[i := carry e (addons ! i)]) = map host addons"
      by (simp add: map_update list_update_same_conv carry_def)
    with 2 Some show ?thesis by simp
  qed
qed

lemma merge_loop_events:
  "snd (merge_loop old addons evs) =
     evs @ map removed_warning (filter (\<lambda>e. find_index (same_id e) addons = None) old)"
proof (induction old addons evs rule: merge_loop.induct)
  case (1 addons evs)
  then show ?case by simp
next
  case (2 e rest addons evs)
  show ?case
  proof (cases "find_index (same_id e) addons")
    case None
    with 2 show ?thesis by simp
  next
    case (Some i)
    then have i: "i < length addons" by (auto dest: find_index_Some)
    have "\<And>x. find_index (same_id x) (addons[i := carry e (addons ! i)]) =
               find_index (same_id x) addons"
      by (rule find_index_package_cong) (simp add: map_package_update i)
    with 2 Some show ?thesis by simp
  qed
qed

lemma merge_loop_entry:
  "j < length addons \<Longrightarrow> fst (merge_loop old addons evs) ! j = merged_entry old addons j"
proof (induction old arbitrary: addons evs)
  case Nil
  then show ?case by (simp add: merged_entry_def)
next
  case (Cons e rest)
  show ?case
  proof (cases "find_index (same_id e) addons")
    case None
    then have "\<not> same_id e (addons ! j)"
      using Cons.prems by (simp add: find_index_None)
    with None Cons show ?thesis by (simp add: merged_entry_def)
  next
    case (Some i)
    then have i: "i < length addons" and Pi: "same_id e (addons ! i)"
      and first: "\<forall>k<i. \<not> same_id e (addons ! k)"
      by (auto dest: find_index_Some)
    let ?addons' = "addons[i := carry e (addons ! i)]"
    have pk: "map package ?addons' = map package addons"
      by (simp add: map_package_update i)
    have j': "j < length ?addons'" using Cons.prems by simp
    have sid: "same_id (?addons' ! j) = same_id (addons ! j)"
      using Cons.prems by (cases "j = i") simp_all
    have sidr: "\<And>x. same_id x (?addons' ! j) = same_id x (addons ! j)"
      using Cons.prems by (cases "j = i") simp_all
    have fi: "find_index (same_id (?addons' ! j)) ?addons' = find_index (same_id (addons ! j)) addons"
      unfolding sid by (rule find_index_package_cong) (rule pk)
    have step: "fst (merge_loop (e # rest) addons evs) ! j = merged_entry rest ?addons' j"
      using Some Cons.IH [OF j'] by simp
    have nth: "j \<noteq> i \<Longrightarrow> ?addons' ! j = addons ! j"
      by simp
    show ?thesis
    proof (cases "j = i")
      case True
      have "same_id (addons ! i) = same_id e"
        using Pi by (auto simp: same_id_def fun_eq_iff)
      then have "find_index (same_id (addons ! i)) addons = Some i"
        using Some by simp
      then show ?thesis
        unfolding step using True fi sidr Pi i
        by (auto simp: merged_entry_def split: list.splits)
    next
      case False
      show ?thesis
      proof (cases "find_index (same_id (addons ! j)) addons = Some j")
        case fj: True
        have "\<not> same_id e (addons ! j)"
        proof
          assume sj: "same_id e (addons ! j)"
          then have "same_id (addons ! j) = same_id e"
            by (auto simp: same_id_def fun_eq_iff)
          with fj Some have "j = i" by simp
          with False show False by simp
        qed
        then show ?thesis
          unfolding step using False fi sidr fj Cons.prems nth
          by (simp add: merged_entry_def split: list.splits)
      next
        case fj: False
        then show ?thesis
          unfolding step using False fi Cons.prems nth
          by (simp add: merged_entry_def split: list.splits)
      qed
    qed
  qed
qed

section \<open>The name aliasing helper\<close>

text \<open>
  C6. \<open>addAddonName\<close> sets \<open>addon_names\<close> to \<open>[name]\<close> when it is unset; otherwise it
  appends \<open>name\<close> at the end unless the list already holds it, and leaves the list as it
  is when it does; no other field changes. Calling it twice with one name equals calling
  it once, and calling it with two distinct names that are both new yields both, in call
  order, after the names that were there.
\<close>

theorem addAddonName_spec:
  "addAddonName a n =
     a\<lparr>addon_names := Some (case addon_names a of None \<Rightarrow> [n]
                              | Some ns \<Rightarrow> if n \<in> set ns then ns else ns @ [n])\<rparr>
   \<and> addAddonName (addAddonName a n) n = addAddonName a n
   \<and> (n \<noteq> m \<longrightarrow> addon_names a = None \<longrightarrow>
        addon_names (addAddonName (addAddonName a n) m) = Some [n, m])
   \<and> (\<forall>ns. n \<noteq> m \<longrightarrow> addon_names a = Some ns \<longrightarrow> n \<notin> set ns \<longrightarrow> m \<notin> set ns \<longrightarrow>
        addon_names (addAddonName (addAddonName a n) m) = Some (ns @ [n, m]))"
  by (cases "addon_names a") (auto simp: addAddonName_def)

theorem addAddonName_spec_witness:
  "addon_names addon_foo = Some [''Foo''] \<and> ''Bar'' \<noteq> ''Baz''
   \<and> ''Bar'' \<notin> set [''Foo''] \<and> ''Baz'' \<notin> set [''Foo'']
   \<and> addon_names (addAddonName (addAddonName addon_foo ''Bar'') ''Baz'') = Some [''Foo'', ''Bar'', ''Baz'']
   \<and> addon_names (mk_addon ''a'' ''A'') = None
   \<and> addon_names (addAddonName (addAddonName (mk_addon ''a'' ''A'') ''Bar'') ''Baz'') = Some [''Bar'', ''Baz'']"
proof -
  have h1: "addon_names addon_foo = Some [''Foo'']"
    by (simp add: addon_foo_def)
  have h2: "''Bar'' \<noteq> ''Baz''" "''Bar'' \<notin> set [''Foo'']" "''Baz'' \<notin> set [''Foo'']"
    by simp_all
  have h3: "addon_names (mk_addon ''a'' ''A'') = None"
    by (simp add: mk_addon_def)
  from addAddonName_spec [of addon_foo "''Bar''" "''Baz''"] h1 h2
  have c1: "addon_names (addAddonName (addAddonName addon_foo ''Bar'') ''Baz'') = Some ([''Foo''] @ [''Bar'', ''Baz''])"
    by blast
  from addAddonName_spec [of "mk_addon ''a'' ''A''" "''Bar''" "''Baz''"] h2(1) h3
  have c2: "addon_names (addAddonName (addAddonName (mk_addon ''a'' ''A'') ''Bar'') ''Baz'') = Some [''Bar'', ''Baz'']"
    by blast
  from h1 h2 h3 c1 c2 show ?thesis by simp
qed

section \<open>Host dispatch\<close>

text \<open>
  C10. When the host object of an add-on has the key \<open>github\<close>, \<open>update\<close> calls the
  github resolver and nothing else, whether or not the key \<open>standalone\<close> is there too.
  When the host has neither key, \<open>update\<close> calls no resolver and returns without an
  error, and the resolution loop passes the add-on on as it is, with no event of its own.
\<close>

theorem update_dispatch:
  "(\<forall>g. github (host a) = Some g \<longrightarrow>
        update c a = ([Github_Call a g], updateFromGithub c a g))
   \<and> (github (host a) = None \<and> standalone (host a) = None \<longrightarrow>
        update c a = ([], Returned a)
        \<and> update_loop c (a # rest) = (a # fst (update_loop c rest), snd (update_loop c rest)))"
  by (auto simp: update_def split: prod.splits)

theorem update_dispatch_witness:
  "github (host addon_both) = Some ''owner/repo''
   \<and> standalone (host addon_both) = Some ''https://example.org''
   \<and> update ex_collab addon_both =
        ([Github_Call addon_both ''owner/repo''], Returned (addon_both\<lparr>release := Some ''2.0.0''\<rparr>))
   \<and> github (host addon_nohost) = None \<and> standalone (host addon_nohost) = None
   \<and> update ex_collab addon_nohost = ([], Returned addon_nohost)
   \<and> update_loop ex_collab [addon_nohost] = ([addon_nohost], [])"
proof -
  have h1: "github (host addon_both) = Some ''owner/repo''"
    "standalone (host addon_both) = Some ''https://example.org''"
    by (simp_all add: addon_both_def)
  have h2: "github (host addon_nohost) = None" "standalone (host addon_nohost) = None"
    by (simp_all add: addon_nohost_def)
  have r: "updateFromGithub ex_collab addon_both ''owner/repo'' = Returned (addon_both\<lparr>release := Some ''2.0.0''\<rparr>)"
    by (simp add: ex_collab_def)
  from update_dispatch [of addon_both ex_collab] h1 r
  have c1: "update ex_collab addon_both =
        ([Github_Call addon_both ''owner/repo''], Returned (addon_both\<lparr>release := Some ''2.0.0''\<rparr>))"
    by simp
  from update_dispatch [of addon_nohost ex_collab "[]"] h2
  have c2: "update ex_collab addon_nohost = ([], Returned addon_nohost)"
    "update_loop ex_collab [addon_nohost] = ([addon_nohost], [])"
    by simp_all
  from h1 h2 c1 c2 show ?thesis by simp
qed

lemma existsSync_Some: "fs w p = Some n \<Longrightarrow> existsSync w p"
  by (simp add: existsSync_def)

lemma generateManifest_scanned:
  assumes "fs w p = Some (Dir names)" and "mp \<noteq> Some []"
    and "\<forall>f\<in>set names. \<not> is_Fatal (scan_file c w (path_join p f))"
  shows "generateManifest c p mp w =
     (if \<exists>f\<in>set names. is_Invalid (scan_file c w (path_join p f))
      then Inl (Validation_Failed, emit (scan_events c w p names) w)
      else
        (case merge_existing mp (valid_addons c w p names) (emit (scan_events c w p names) w) of
           Inl failure \<Rightarrow> Inl failure
         | Inr (merged, w2) \<Rightarrow>
             (case update_loop c merged of
                (resolved, evs) \<Rightarrow> output_manifest mp resolved (emit evs w2))))"
proof -
  have ex: "existsSync w p" using assms(1) by (rule existsSync_Some)
  have rd: "readdirSync w p = Inr names" using assms(1) by (simp add: readdirSync_def)
  have col: "collect c p names [] False w =
     Inr (valid_addons c w p names,
          (\<exists>f\<in>set names. is_Invalid (scan_file c w (path_join p f))),
          emit (scan_events c w p names) w)"
    using collect_no_fatal [OF assms(3), of "[]" False "[]"]
    by (simp add: scan_events_def)
  show ?thesis
    unfolding generateManifest_def using ex rd col assms(2) by simp
qed

lemma generateManifest_fatal:
  assumes "fs w p = Some (Dir (pre @ f # rest))" and "mp \<noteq> Some []"
    and "\<forall>g\<in>set pre. \<not> is_Fatal (scan_file c w (path_join p g))"
    and "scan_file c w (path_join p f) = Fatal e"
  shows "generateManifest c p mp w =
     Inl (e, emit (scan_events c w p pre @ [Read_File (path_join p f)]) w)"
proof -
  have ex: "existsSync w p" using assms(1) by (rule existsSync_Some)
  have rd: "readdirSync w p = Inr (pre @ f # rest)" using assms(1) by (simp add: readdirSync_def)
  have col: "collect c p (pre @ f # rest) [] False w =
     Inl (e, emit (scan_events c w p pre @ [Read_File (path_join p f)]) w)"
    using collect_fatal [OF assms(3,4), of rest "[]" False "[]"]
    by (simp add: scan_events_def)
  show ?thesis
    unfolding generateManifest_def using ex rd col assms(2) by simp
qed

lemma path_join_inj [simp]: "path_join p f = path_join p g \<longleftrightarrow> f = g"
  by (simp add: path_join_def)

lemma file_events_cases:
  "ev \<in> set (file_events c w p f) \<Longrightarrow>
     ev = Read_File (path_join p f)
     \<or> (\<exists>m. ev = Core_Error m (Some (path_join p f)))
     \<or> (\<exists>m. ev = Console_Error (f @ '': '' @ m))"
  by (auto simp: file_events_def validation_events_def split: scanned.splits)

lemma scan_events_cases:
  "ev \<in> set (scan_events c w p names) \<Longrightarrow>
     \<exists>f\<in>set names. ev = Read_File (path_join p f)
       \<or> (\<exists>m. ev = Core_Error m (Some (path_join p f)))
       \<or> (\<exists>m. ev = Console_Error (f @ '': '' @ m))"
proof -
  assume "ev \<in> set (scan_events c w p names)"
  then obtain f where f: "f \<in> set names" and ev: "ev \<in> set (file_events c w p f)"
    by (auto simp: scan_events_def)
  from file_events_cases [OF ev] f show ?thesis by blast
qed

lemma scan_events_read:
  "f \<in> set names \<Longrightarrow> Read_File (path_join p f) \<in> set (scan_events c w p names)"
  by (auto simp: scan_events_def file_events_def)

lemma scan_events_invalid:
  "f \<in> set names \<Longrightarrow> scan_file c w (path_join p f) = Invalid ms \<Longrightarrow> m \<in> set ms \<Longrightarrow>
     Core_Error m (Some (path_join p f)) \<in> set (scan_events c w p names)
     \<and> Console_Error (f @ '': '' @ m) \<in> set (scan_events c w p names)"
  by (auto simp: scan_events_def file_events_def validation_events_def intro!: bexI [of _ f])

lemma scan_events_quiet:
  "ev \<in> set (scan_events c w p names) \<Longrightarrow> \<not> is_resolver_call ev \<and> \<not> is_manifest_output ev"
  by (auto dest!: scan_events_cases)

lemmas ex_scan_simps =
  scan_file_def readFileSync_def path_join_def mk_world_def ex_collab_def

section \<open>Discovery and validation\<close>

text \<open>
  C3. Let the add-on directory list \<open>fileNames\<close>, let no file end the scan by an error
  other than a validation error, and let at least one file fail validation (the manifest
  path is not the empty string, so the run reaches the scan). Then the run reads every
  file of the listing, reports every message of every file that fails validation, both as
  an annotation with the file's path and on the console, and then fails with the
  validation error. The file system is as it was, no event of the run is a call of a
  resolver, and none is a manifest printed on the console.
\<close>

theorem validate_all_before_fail:
  assumes "fs w addonsPath = Some (Dir fileNames)"
    and "manifestPath \<noteq> Some []"
    and "\<forall>f\<in>set fileNames. \<not> is_Fatal (scan_file c w (path_join addonsPath f))"
    and "\<exists>f\<in>set fileNames. is_Invalid (scan_file c w (path_join addonsPath f))"
  shows "generateManifest c addonsPath manifestPath w =
           Inl (Validation_Failed, emit (scan_events c w addonsPath fileNames) w)
     \<and> fs (emit (scan_events c w addonsPath fileNames) w) = fs w
     \<and> (\<forall>f\<in>set fileNames. Read_File (path_join addonsPath f) \<in> set (scan_events c w addonsPath fileNames))
     \<and> (\<forall>f\<in>set fileNames. \<forall>ms. scan_file c w (path_join addonsPath f) = Invalid ms \<longrightarrow>
          (\<forall>m\<in>set ms. Core_Error m (Some (path_join addonsPath f)) \<in> set (scan_events c w addonsPath fileNames)
                     \<and> Console_Error (f @ '': '' @ m) \<in> set (scan_events c w addonsPath fileNames)))
     \<and> (\<forall>ev\<in>set (scan_events c w addonsPath fileNames). \<not> is_resolver_call ev \<and> \<not> is_manifest_output ev)"
proof -
  have run: "generateManifest c addonsPath manifestPath w =
           Inl (Validation_Failed, emit (scan_events c w addonsPath fileNames) w)"
    using generateManifest_scanned [OF assms(1,2,3)] assms(4) by simp
  have quiet: "\<forall>ev\<in>set (scan_events c w addonsPath fileNames). \<not> is_resolver_call ev \<and> \<not> is_manifest_output ev"
    using scan_events_quiet by blast
  have reads: "\<forall>f\<in>set fileNames. Read_File (path_join addonsPath f) \<in> set (scan_events c w addonsPath fileNames)"
    using scan_events_read by blast
  have reports: "\<forall>f\<in>set fileNames. \<forall>ms. scan_file c w (path_join addonsPath f) = Invalid ms \<longrightarrow>
          (\<forall>m\<in>set ms. Core_Error m (Some (path_join addonsPath f)) \<in> set (scan_events c w addonsPath fileNames)
                     \<and> Console_Error (f @ '': '' @ m) \<in> set (scan_events c w addonsPath fileNames))"
    using scan_events_invalid by blast
  from run quiet reads reports show ?thesis by simp
qed

theorem validate_all_before_fail_witness:
  "fs world_invalid ''addons'' = Some (Dir [''a.toml'', ''b.toml'', ''c.toml''])
   \<and> (None :: string option) \<noteq> Some []
   \<and> scan_file ex_collab world_invalid (path_join ''addons'' ''a.toml'') = Valid (mk_addon ''a'' ''A'')
   \<and> scan_file ex_collab world_invalid (path_join ''addons'' ''b.toml'') = Invalid [''Required'']
   \<and> scan_file ex_collab world_invalid (path_join ''addons'' ''c.toml'') = Invalid [''Invalid url'', ''Expected string'']
   \<and> generateManifest ex_collab ''addons'' None world_invalid =
        Inl (Validation_Failed,
             emit (scan_events ex_collab world_invalid ''addons'' [''a.toml'', ''b.toml'', ''c.toml'']) world_invalid)
   \<and> Core_Error ''Required'' (Some (path_join ''addons'' ''b.toml''))
        \<in> set (scan_events ex_collab world_invalid ''addons'' [''a.toml'', ''b.toml'', ''c.toml''])
   \<and> Core_Error ''Expected string'' (Some (path_join ''addons'' ''c.toml''))
        \<in> set (scan_events ex_collab world_invalid ''addons'' [''a.toml'', ''b.toml'', ''c.toml''])"
proof -
  let ?names = "[''a.toml'', ''b.toml'', ''c.toml'']"
  have h1: "fs world_invalid ''addons'' = Some (Dir ?names)"
    by (simp add: world_invalid_def mk_world_def)
  have h2: "(None :: string option) \<noteq> Some []"
    by simp
  have sa: "scan_file ex_collab world_invalid (path_join ''addons'' ''a.toml'') = Valid (mk_addon ''a'' ''A'')"
    by (simp add: world_invalid_def ex_scan_simps)
  have sb: "scan_file ex_collab world_invalid (path_join ''addons'' ''b.toml'') = Invalid [''Required'']"
    by (simp add: world_invalid_def ex_scan_simps)
  have sc: "scan_file ex_collab world_invalid (path_join ''addons'' ''c.toml'') = Invalid [''Invalid url'', ''Expected string'']"
    by (simp add: world_invalid_def ex_scan_simps)
  have h3: "\<forall>f\<in>set ?names. \<not> is_Fatal (scan_file ex_collab world_invalid (path_join ''addons'' f))"
    using sa sb sc by simp
  have h4: "\<exists>f\<in>set ?names. is_Invalid (scan_file ex_collab world_invalid (path_join ''addons'' f))"
    using sb by simp
  note t = validate_all_before_fail [OF h1 h2 h3 h4]
  from t have run: "generateManifest ex_collab ''addons'' None world_invalid =
        Inl (Validation_Failed, emit (scan_events ex_collab world_invalid ''addons'' ?names) world_invalid)"
    by (rule conjunct1)
  from t have rep: "\<forall>f\<in>set ?names. \<forall>ms. scan_file ex_collab world_invalid (path_join ''addons'' f) = Invalid ms \<longrightarrow>
          (\<forall>m\<in>set ms. Core_Error m (Some (path_join ''addons'' f)) \<in> set (scan_events ex_collab world_invalid ''addons'' ?names)
                     \<and> Console_Error (f @ '': '' @ m) \<in> set (scan_events ex_collab world_invalid ''addons'' ?names))"
    by blast
  have rb: "Core_Error ''Required'' (Some (path_join ''addons'' ''b.toml''))
        \<in> set (scan_events ex_collab world_invalid ''addons'' ?names)"
    using rep [rule_format, of "''b.toml''" "[''Required'']" "''Required''"] sb by simp
  have rc: "Core_Error ''Expected string'' (Some (path_join ''addons'' ''c.toml''))
        \<in> set (scan_events ex_collab world_invalid ''addons'' ?names)"
    using rep [rule_format, of "''c.toml''" "[''Invalid url'', ''Expected string'']" "''Expected string''"] sc by simp
  from h1 h2 sa sb sc run rb rc show ?thesis by blast
qed

text \<open>
  C7. Let the listing be \<open>pre @ f # rest\<close>, where no file of \<open>pre\<close> ends the scan and
  the file \<open>f\<close> cannot be read or makes the parser throw something that is not a
  validation error. Then the run fails with that very error, the last thing it did is the
  read of \<open>f\<close>, and no file of \<open>rest\<close> is read (unless its name is also in \<open>pre\<close> or
  is \<open>f\<close>). The file system is as it was, no resolver is called and no manifest is
  printed.
\<close>

theorem fail_fast_on_other_errors:
  assumes "fs w addonsPath = Some (Dir (pre @ f # rest))"
    and "manifestPath \<noteq> Some []"
    and "\<forall>g\<in>set pre. \<not> is_Fatal (scan_file c w (path_join addonsPath g))"
    and "scan_file c w (path_join addonsPath f) = Fatal e"
  shows "generateManifest c addonsPath manifestPath w =
           Inl (e, emit (scan_events c w addonsPath pre @ [Read_File (path_join addonsPath f)]) w)
     \<and> fs (emit (scan_events c w addonsPath pre @ [Read_File (path_join addonsPath f)]) w) = fs w
     \<and> (\<forall>g\<in>set rest. g \<notin> set pre \<and> g \<noteq> f \<longrightarrow>
          Read_File (path_join addonsPath g)
            \<notin> set (scan_events c w addonsPath pre @ [Read_File (path_join addonsPath f)]))
     \<and> (\<forall>ev\<in>set (scan_events c w addonsPath pre @ [Read_File (path_join addonsPath f)]).
          \<not> is_resolver_call ev \<and> \<not> is_manifest_output ev)"
proof -
  have run: "generateManifest c addonsPath manifestPath w =
           Inl (e, emit (scan_events c w addonsPath pre @ [Read_File (path_join addonsPath f)]) w)"
    by (rule generateManifest_fatal [OF assms])
  have unread: "\<forall>g\<in>set rest. g \<notin> set pre \<and> g \<noteq> f \<longrightarrow>
          Read_File (path_join addonsPath g)
            \<notin> set (scan_events c w addonsPath pre @ [Read_File (path_join addonsPath f)])"
    by (auto dest!: scan_events_cases)
  have quiet: "\<forall>ev\<in>set (scan_events c w addonsPath pre @ [Read_File (path_join addonsPath f)]).
          \<not> is_resolver_call ev \<and> \<not> is_manifest_output ev"
    by (auto dest: scan_events_quiet)
  from run unread quiet show ?thesis by simp
qed

theorem fail_fast_on_other_errors_witness:
  "fs world_fatal ''addons'' = Some (Dir ([''b.toml''] @ ''sub'' # [''c.toml'']))
   \<and> (None :: string option) \<noteq> Some []
   \<and> scan_file ex_collab world_fatal (path_join ''addons'' ''b.toml'') = Invalid [''Required'']
   \<and> scan_file ex_collab world_fatal (path_join ''addons'' ''sub'') = Fatal (Fs_Error EISDIR ''addons/sub'')
   \<and> generateManifest ex_collab ''addons'' None world_fatal =
        Inl (Fs_Error EISDIR ''addons/sub'',
             emit (scan_events ex_collab world_fatal ''addons'' [''b.toml'']
                   @ [Read_File (path_join ''addons'' ''sub'')]) world_fatal)
   \<and> Read_File (path_join ''addons'' ''c.toml'')
        \<notin> set (scan_events ex_collab world_fatal ''addons'' [''b.toml'']
                 @ [Read_File (path_join ''addons'' ''sub'')])"
proof -
  have h1: "fs world_fatal ''addons'' = Some (Dir ([''b.toml''] @ ''sub'' # [''c.toml'']))"
    by (simp add: world_fatal_def mk_world_def)
  have h2: "(None :: string option) \<noteq> Some []"
    by simp
  have sb: "scan_file ex_collab world_fatal (path_join ''addons'' ''b.toml'') = Invalid [''Required'']"
    by (simp add: world_fatal_def ex_scan_simps)
  have h3: "\<forall>g\<in>set [''b.toml'']. \<not> is_Fatal (scan_file ex_collab world_fatal (path_join ''addons'' g))"
    using sb by simp
  have h4: "scan_file ex_collab world_fatal (path_join ''addons'' ''sub'') = Fatal (Fs_Error EISDIR ''addons/sub'')"
    by (simp add: world_fatal_def ex_scan_simps)
  note t = fail_fast_on_other_errors [OF h1 h2 h3 h4]
  from t have run: "generateManifest ex_collab ''addons'' None world_fatal =
        Inl (Fs_Error EISDIR ''addons/sub'',
             emit (scan_events ex_collab world_fatal ''addons'' [''b.toml'']
                   @ [Read_File (path_join ''addons'' ''sub'')]) world_fatal)"
    by (rule conjunct1)
  from t have "\<forall>g\<in>set [''c.toml'']. g \<notin> set [''b.toml''] \<and> g \<noteq> ''sub'' \<longrightarrow>
          Read_File (path_join ''addons'' g)
            \<notin> set (scan_events ex_collab world_fatal ''addons'' [''b.toml'']
                 @ [Read_File (path_join ''addons'' ''sub'')])"
    by blast
  then have unread: "Read_File (path_join ''addons'' ''c.toml'')
        \<notin> set (scan_events ex_collab world_fatal ''addons'' [''b.toml'']
                 @ [Read_File (path_join ''addons'' ''sub'')])"
    by simp
  from h1 h2 sb h4 run unread show ?thesis by blast
qed

section \<open>Carry-forward merge\<close>

lemma merge_existing_array:
  assumes "fs w p = Some (File (Json_Array old))" and "p \<noteq> []"
  shows "merge_existing (Some p) addons w =
           Inr (fst (merge_loop old addons []),
                emit (Read_File p # snd (merge_loop old addons [])) w)"
proof -
  have ex: "existsSync w p" using assms(1) by (rule existsSync_Some)
  have rd: "readFileSync w p = Inr (Json_Array old)"
    using assms(1) by (simp add: readFileSync_def)
  show ?thesis
    unfolding merge_existing_def using ex rd assms(2)
    by (simp add: split_beta)
qed

lemma length_update_loop: "length (fst (update_loop c addons)) = length addons"
  by (induction addons) (auto split: prod.splits outcome.splits)

lemma update_loop_result:
  "fst (update_loop c addons) = map (\<lambda>a. result_addon (snd (update c a))) addons"
  by (induction addons) (auto split: prod.splits outcome.splits)

lemma update_loop_calls:
  "a \<in> set addons \<Longrightarrow> set (fst (update c a)) \<subseteq> set (snd (update_loop c addons))"
  by (induction addons) (auto split: prod.splits outcome.splits)

lemma update_loop_failures:
  "a \<in> set addons \<Longrightarrow> snd (update c a) = Threw m a' \<Longrightarrow>
     set (failure_events a' m) \<subseteq> set (snd (update_loop c addons))"
  by (induction addons) (auto split: prod.splits outcome.splits)

lemma parent_directory_emit [simp]: "parent_directory (emit evs w) p = parent_directory w p"
  by (simp add: parent_directory_def)

lemma can_write_fs:
  assumes "fs w' = fs w"
  shows "can_write w' p = can_write w p"
  unfolding can_write_def parent_directory_def assms ..

lemma can_write_emit [simp]: "can_write (emit evs w) p = can_write w p"
  by (rule can_write_fs) simp

lemma writeFileSync_can_write:
  "can_write w p \<Longrightarrow> writeFileSync w p ct = Inr (w\<lparr>fs := (fs w)(p \<mapsto> File ct)\<rparr>)"
  by (auto simp: can_write_def writeFileSync_def split: sum.splits option.splits node.splits)

lemma writeFileSync_cannot_write:
  "\<not> can_write w p \<Longrightarrow> \<exists>e. writeFileSync w p ct = Inl (e, w)"
  by (auto simp: can_write_def writeFileSync_def split: sum.splits option.splits node.splits)

lemma output_manifest_file:
  assumes "can_write w p" and "p \<noteq> []"
  shows "output_manifest (Some p) addons w = Inr (w\<lparr>fs := (fs w)(p \<mapsto> File (Json_Manifest addons))\<rparr>)"
  using assms by (simp add: output_manifest_def writeFileSync_can_write)

lemma output_manifest_console:
  "output_manifest None addons w = Inr (emit [Console_Log_Manifest addons] w)"
  by (simp add: output_manifest_def)

lemma collect_fs:
  "collect c p names as flag w = Inr (as', flag', w') \<Longrightarrow> fs w' = fs w"
proof (induction names arbitrary: as flag w)
  case Nil
  then show ?case by simp
next
  case (Cons f names)
  show ?case
  proof (cases "scan_file c w (path_join p f)")
    case (Valid a)
    with Cons.prems have "collect c p names (as @ [a]) flag (emit [Read_File (path_join p f)] w) = Inr (as', flag', w')"
      by (simp only: collect_Cons_scan scanned.case)
    from Cons.IH [OF this] show ?thesis by simp
  next
    case (Invalid ms)
    with Cons.prems have "collect c p names as True
        (emit (Read_File (path_join p f) # validation_events (path_join p f) f ms) w) = Inr (as', flag', w')"
      by (simp only: collect_Cons_scan scanned.case)
    from Cons.IH [OF this] show ?thesis by simp
  next
    case (Fatal e)
    with Cons.prems show ?thesis
      by (simp only: collect_Cons_scan scanned.case) simp
  qed
qed

lemma merge_existing_fs:
  "merge_existing mp addons w = Inr (addons', w') \<Longrightarrow> fs w' = fs w"
  by (auto simp: merge_existing_def Let_def
           split: option.splits if_splits sum.splits content.splits prod.splits)

lemma valid_no_fatal: "is_Valid s \<Longrightarrow> \<not> is_Fatal s \<and> \<not> is_Invalid s"
  by (cases s) simp_all

lemma missing_directory:
  "fs w addonsPath = None \<Longrightarrow>
     generateManifest c addonsPath manifestPath w = Inl (Addon_Directory_Missing addonsPath, w)"
  by (simp add: generateManifest_def existsSync_def)

lemma written_manifest_not_iterable:
  assumes "fs w p = Some (File (Json_Manifest m))" and "p \<noteq> []"
  shows "merge_existing (Some p) addons w = Inl (Not_Iterable, emit [Read_File p] w)"
  using assms by (simp add: merge_existing_def existsSync_def readFileSync_def)

text \<open>
  C4, as the code has it. Let the manifest file hold a JSON array of entries. The merge
  step returns the batch, in its order and length, in which every add-on that is the
  first of the batch with its identifier, and whose identifier some loaded entry has,
  carries the \<open>release\<close>, \<open>prerelease\<close> and \<open>addon_names\<close> of the last loaded entry
  with that identifier (the only one when the identifiers of the manifest are distinct),
  and its own \<open>package\<close> and \<open>host\<close>. The three fields are replaced whole: a field the
  old entry lacks is absent afterwards. The list returned is the one the resolution loop
  receives. An add-on that repeats the identifier of an earlier add-on of the batch is
  left out of the statement: the example after the theorem shows that it keeps its own
  fields although a loaded entry has its identifier.
\<close>

theorem carry_forward_first_match:
  assumes "fs w manifestPath = Some (File (Json_Array existingManifest))"
    and "manifestPath \<noteq> []"
  shows "merge_existing (Some manifestPath) addons w =
           Inr (fst (merge_loop existingManifest addons []),
                emit (Read_File manifestPath # snd (merge_loop existingManifest addons [])) w)
     \<and> length (fst (merge_loop existingManifest addons [])) = length addons
     \<and> (\<forall>j<length addons. \<forall>e es.
           find_index (same_id (addons ! j)) addons = Some j \<longrightarrow>
           filter (\<lambda>existingAddon. same_id existingAddon (addons ! j)) existingManifest = e # es \<longrightarrow>
             fst (merge_loop existingManifest addons []) ! j =
               (addons ! j)\<lparr>release := release (last (e # es)),
                             prerelease := prerelease (last (e # es)),
                             addon_names := addon_names (last (e # es))\<rparr>)"
proof -
  have entry: "\<forall>j<length addons. \<forall>e es.
           find_index (same_id (addons ! j)) addons = Some j \<longrightarrow>
           filter (\<lambda>existingAddon. same_id existingAddon (addons ! j)) existingManifest = e # es \<longrightarrow>
             fst (merge_loop existingManifest addons []) ! j =
               (addons ! j)\<lparr>release := release (last (e # es)),
                             prerelease := prerelease (last (e # es)),
                             addon_names := addon_names (last (e # es))\<rparr>"
    by (simp add: merge_loop_entry merged_entry_def carry_def)
  from merge_existing_array [OF assms] length_merge_loop [of existingManifest addons "[]"] entry
  show ?thesis by blast
qed

theorem carry_forward_first_match_witness:
  "fs world_manifest ''manifest.json'' = Some (File (Json_Array [old_a, old_z]))
   \<and> ''manifest.json'' \<noteq> []
   \<and> (0::nat) < length [mk_addon ''a'' ''A'', mk_addon ''c'' ''C'']
   \<and> find_index (same_id ([mk_addon ''a'' ''A'', mk_addon ''c'' ''C''] ! 0)) [mk_addon ''a'' ''A'', mk_addon ''c'' ''C''] = Some 0
   \<and> filter (\<lambda>existingAddon. same_id existingAddon ([mk_addon ''a'' ''A'', mk_addon ''c'' ''C''] ! 0)) [old_a, old_z] = old_a # []
   \<and> fst (merge_loop [old_a, old_z] [mk_addon ''a'' ''A'', mk_addon ''c'' ''C''] []) ! 0 =
        (mk_addon ''a'' ''A'')\<lparr>release := Some ''1.2.0'', prerelease := None, addon_names := Some [''Foo'']\<rparr>"
proof -
  let ?batch = "[mk_addon ''a'' ''A'', mk_addon ''c'' ''C'']"
  have h1: "fs world_manifest ''manifest.json'' = Some (File (Json_Array [old_a, old_z]))"
    by (simp add: world_manifest_def mk_world_def)
  have h2: "''manifest.json'' \<noteq> []"
    by simp
  have h3: "(0::nat) < length ?batch"
    by simp
  have h4: "find_index (same_id (?batch ! 0)) ?batch = Some 0"
    by (simp add: same_id_def)
  have h5: "filter (\<lambda>existingAddon. same_id existingAddon (?batch ! 0)) [old_a, old_z] = old_a # []"
    by (simp add: same_id_def old_a_def old_z_def mk_addon_def)
  have v: "release (last (old_a # [])) = Some ''1.2.0''" "prerelease (last (old_a # [])) = None"
    "addon_names (last (old_a # [])) = Some [''Foo'']"
    by (simp_all add: old_a_def mk_addon_def)
  from carry_forward_first_match [OF h1 h2, of ?batch]
  have "\<forall>j<length ?batch. \<forall>e es.
           find_index (same_id (?batch ! j)) ?batch = Some j \<longrightarrow>
           filter (\<lambda>existingAddon. same_id existingAddon (?batch ! j)) [old_a, old_z] = e # es \<longrightarrow>
             fst (merge_loop [old_a, old_z] ?batch []) ! j =
               (?batch ! j)\<lparr>release := release (last (e # es)),
                             prerelease := prerelease (last (e # es)),
                             addon_names := addon_names (last (e # es))\<rparr>"
    by blast
  from this [rule_format, OF h3 h4 h5]
  have c: "fst (merge_loop [old_a, old_z] ?batch []) ! 0 =
        (mk_addon ''a'' ''A'')\<lparr>release := Some ''1.2.0'', prerelease := None, addon_names := Some [''Foo'']\<rparr>"
    unfolding v by simp
  from h1 h2 h3 h4 h5 c show ?thesis by blast
qed

theorem carry_forward_every_match_counterexample:
  "merge_existing (Some ''manifest.json'') dup_batch world_manifest =
     Inr (fst (merge_loop [old_a, old_z] dup_batch []),
          emit (Read_File ''manifest.json'' # snd (merge_loop [old_a, old_z] dup_batch [])) world_manifest)
   \<and> package_id (package (dup_batch ! 2)) = package_id (package old_a)
   \<and> release old_a = Some ''1.2.0''
   \<and> release (fst (merge_loop [old_a, old_z] dup_batch []) ! 2) = None
   \<and> addon_names old_a = Some [''Foo'']
   \<and> addon_names (fst (merge_loop [old_a, old_z] dup_batch []) ! 2) = None"
  by (simp add: merge_existing_def existsSync_def readFileSync_def emit_def world_manifest_def
        mk_world_def dup_batch_def old_a_def old_z_def mk_addon_def same_id_def carry_def
        removed_warning_def)

text \<open>
  C9. Let the manifest file hold a JSON array with an entry \<open>e\<close>, and let the batch
  have the identifier of \<open>e\<close> at the positions \<open>i < j\<close>, \<open>i\<close> being the first position
  with it. After the merge step the add-on at \<open>i\<close> carries the \<open>release\<close>,
  \<open>prerelease\<close> and \<open>addon_names\<close> of an entry of the manifest with that identifier
  (the last one, which is \<open>e\<close> when no other entry has the identifier), and the add-on
  at \<open>j\<close> is exactly as it was before the step.
\<close>

theorem carry_forward_duplicates:
  assumes "fs w manifestPath = Some (File (Json_Array existingManifest))"
    and "manifestPath \<noteq> []"
    and "e \<in> set existingManifest"
    and "i < j" and "j < length addons"
    and "same_id e (addons ! i)" and "same_id e (addons ! j)"
    and "\<forall>k<i. \<not> same_id e (addons ! k)"
  shows "merge_existing (Some manifestPath) addons w =
           Inr (fst (merge_loop existingManifest addons []),
                emit (Read_File manifestPath # snd (merge_loop existingManifest addons [])) w)
     \<and> last (filter (\<lambda>x. same_id x e) existingManifest) \<in> set existingManifest
     \<and> same_id (last (filter (\<lambda>x. same_id x e) existingManifest)) e
     \<and> fst (merge_loop existingManifest addons []) ! i =
         (addons ! i)\<lparr>release := release (last (filter (\<lambda>x. same_id x e) existingManifest)),
                       prerelease := prerelease (last (filter (\<lambda>x. same_id x e) existingManifest)),
                       addon_names := addon_names (last (filter (\<lambda>x. same_id x e) existingManifest))\<rparr>
     \<and> fst (merge_loop existingManifest addons []) ! j = addons ! j"
proof -
  let ?m = "filter (\<lambda>x. same_id x e) existingManifest"
  have i: "i < length addons" using assms(4,5) by simp
  have eq_i: "same_id (addons ! i) = same_id e"
    using assms(6) by (auto simp: same_id_def fun_eq_iff)
  have eq_j: "same_id (addons ! j) = same_id e"
    using assms(7) by (auto simp: same_id_def fun_eq_iff)
  have flt: "(\<lambda>x. same_id x (addons ! i)) = (\<lambda>x. same_id x e)"
    using assms(6) by (auto simp: same_id_def fun_eq_iff)
  have first: "find_index (same_id e) addons = Some i"
    using i assms(6,8) by (rule find_index_first)
  have "e \<in> set ?m" using assms(3) by (simp add: same_id_def)
  then have ne: "?m \<noteq> []" by (auto simp: filter_empty_conv)
  then have "last ?m \<in> set ?m" by (rule last_in_set)
  then have l1: "last ?m \<in> set existingManifest" and l2: "same_id (last ?m) e"
    by simp_all
  from ne obtain x xs where xs: "?m = x # xs" by (cases ?m) auto
  have "fst (merge_loop existingManifest addons []) ! i = merged_entry existingManifest addons i"
    using i by (rule merge_loop_entry)
  also have "\<dots> = carry (last ?m) (addons ! i)"
    using first xs by (simp add: merged_entry_def eq_i flt)
  finally have ci: "fst (merge_loop existingManifest addons []) ! i =
         (addons ! i)\<lparr>release := release (last ?m), prerelease := prerelease (last ?m),
                       addon_names := addon_names (last ?m)\<rparr>"
    by (simp add: carry_def)
  have "fst (merge_loop existingManifest addons []) ! j = merged_entry existingManifest addons j"
    using assms(5) by (rule merge_loop_entry)
  also have "\<dots> = addons ! j"
    using first assms(4) by (simp add: merged_entry_def eq_j)
  finally have cj: "fst (merge_loop existingManifest addons []) ! j = addons ! j" .
  from merge_existing_array [OF assms(1,2)] l1 l2 ci cj show ?thesis by blast
qed

theorem carry_forward_duplicates_witness:
  "fs world_manifest ''manifest.json'' = Some (File (Json_Array [old_a, old_z]))
   \<and> ''manifest.json'' \<noteq> []
   \<and> old_a \<in> set [old_a, old_z]
   \<and> (1::nat) < 2 \<and> 2 < length dup_batch
   \<and> same_id old_a (dup_batch ! 1) \<and> same_id old_a (dup_batch ! 2)
   \<and> \<not> same_id old_a (dup_batch ! 0)
   \<and> last (filter (\<lambda>x. same_id x old_a) [old_a, old_z]) = old_a
   \<and> fst (merge_loop [old_a, old_z] dup_batch []) ! 1 =
        (dup_batch ! 1)\<lparr>release := Some ''1.2.0'', prerelease := None, addon_names := Some [''Foo'']\<rparr>
   \<and> fst (merge_loop [old_a, old_z] dup_batch []) ! 2 = dup_batch ! 2"
proof -
  have h1: "fs world_manifest ''manifest.json'' = Some (File (Json_Array [old_a, old_z]))"
    by (simp add: world_manifest_def mk_world_def)
  have h2: "''manifest.json'' \<noteq> []"
    by simp
  have h3: "old_a \<in> set [old_a, old_z]"
    by simp
  have h4: "(1::nat) < 2" "2 < length dup_batch"
    by (simp_all add: dup_batch_def)
  have h5: "same_id old_a (dup_batch ! 1)" "same_id old_a (dup_batch ! 2)"
    by (simp_all add: same_id_def dup_batch_def old_a_def mk_addon_def)
  have n0: "\<not> same_id old_a (dup_batch ! 0)"
    by (simp add: same_id_def dup_batch_def old_a_def mk_addon_def)
  then have h6: "\<forall>k<1::nat. \<not> same_id old_a (dup_batch ! k)"
    by simp
  have l: "last (filter (\<lambda>x. same_id x old_a) [old_a, old_z]) = old_a"
    by (simp add: same_id_def old_a_def old_z_def mk_addon_def)
  have v: "release old_a = Some ''1.2.0''" "prerelease old_a = None"
    "addon_names old_a = Some [''Foo'']"
    by (simp_all add: old_a_def mk_addon_def)
  note t = carry_forward_duplicates [OF h1 h2 h3 h4 h5 h6]
  from t have c1: "fst (merge_loop [old_a, old_z] dup_batch []) ! 1 =
        (dup_batch ! 1)\<lparr>release := Some ''1.2.0'', prerelease := None, addon_names := Some [''Foo'']\<rparr>"
    unfolding l v by blast
  from t have c2: "fst (merge_loop [old_a, old_z] dup_batch []) ! 2 = dup_batch ! 2"
    by blast
  from h1 h2 h3 h4 h5 n0 l c1 c2 show ?thesis by blast
qed

section \<open>Entries that left the batch\<close>

text \<open>
  What the run does with an entry that left the batch when the manifest file holds a
  JSON array: with every descriptor valid and the manifest path writable, the run ends
  normally, the warning for the entry is among its events, and the manifest written is
  the resolution of the merged batch, none of whose add-ons has the identifier of the
  entry.
\<close>

lemma dropped_entry_on_array:
  assumes "fs w addonsPath = Some (Dir fileNames)"
    and "\<forall>f\<in>set fileNames. is_Valid (scan_file c w (path_join addonsPath f))"
    and "manifestPath \<noteq> []"
    and "fs w manifestPath = Some (File (Json_Array existingManifest))"
    and "e \<in> set existingManifest"
    and "\<forall>a\<in>set (valid_addons c w addonsPath fileNames).
           package_id (package a) \<noteq> package_id (package e)"
    and "can_write w manifestPath"
  shows "\<exists>w'. generateManifest c addonsPath (Some manifestPath) w = Inr w'
     \<and> removed_warning e \<in> set (log w')
     \<and> fs w' manifestPath =
         Some (File (Json_Manifest
           (fst (update_loop c (fst (merge_loop existingManifest (valid_addons c w addonsPath fileNames) []))))))
     \<and> length (fst (update_loop c (fst (merge_loop existingManifest (valid_addons c w addonsPath fileNames) []))))
         = length (valid_addons c w addonsPath fileNames)
     \<and> map package (fst (merge_loop existingManifest (valid_addons c w addonsPath fileNames) []))
         = map package (valid_addons c w addonsPath fileNames)
     \<and> (\<forall>a\<in>set (fst (merge_loop existingManifest (valid_addons c w addonsPath fileNames) [])).
           package_id (package a) \<noteq> package_id (package e))"
proof -
  let ?batch = "valid_addons c w addonsPath fileNames"
  let ?merged = "fst (merge_loop existingManifest ?batch [])"
  let ?warn = "snd (merge_loop existingManifest ?batch [])"
  let ?w1 = "emit (scan_events c w addonsPath fileNames) w"
  let ?w2 = "emit (Read_File manifestPath # ?warn) ?w1"
  let ?w3 = "emit (snd (update_loop c ?merged)) ?w2"
  have nf: "\<forall>f\<in>set fileNames. \<not> is_Fatal (scan_file c w (path_join addonsPath f))"
    and ni: "\<not> (\<exists>f\<in>set fileNames. is_Invalid (scan_file c w (path_join addonsPath f)))"
    using assms(2) by (auto dest: valid_no_fatal)
  have mp: "Some manifestPath \<noteq> Some []" using assms(3) by simp
  have f1: "fs ?w1 manifestPath = Some (File (Json_Array existingManifest))"
    using assms(4) by simp
  have mg: "merge_existing (Some manifestPath) ?batch ?w1 = Inr (?merged, ?w2)"
    by (rule merge_existing_array [OF f1 assms(3)])
  have f3: "can_write ?w3 manifestPath"
    using assms(7) by simp
  have out: "output_manifest (Some manifestPath) (fst (update_loop c ?merged)) ?w3 =
      Inr (?w3\<lparr>fs := (fs ?w3)(manifestPath \<mapsto> File (Json_Manifest (fst (update_loop c ?merged))))\<rparr>)"
    by (rule output_manifest_file [OF f3 assms(3)])
  have run: "generateManifest c addonsPath (Some manifestPath) w =
      Inr (?w3\<lparr>fs := (fs ?w3)(manifestPath \<mapsto> File (Json_Manifest (fst (update_loop c ?merged))))\<rparr>)"
    unfolding generateManifest_scanned [OF assms(1) mp nf]
    using ni mg out by (simp add: split_beta)
  have "find_index (same_id e) ?batch = None"
    using assms(6) by (simp add: find_index_None same_id_def)
  then have "removed_warning e \<in> set ?warn"
    using assms(5) by (simp add: merge_loop_events)
  then have warn: "removed_warning e \<in> set (log (?w3\<lparr>fs := (fs ?w3)(manifestPath \<mapsto> File (Json_Manifest (fst (update_loop c ?merged))))\<rparr>))"
    by simp
  have pk: "map package ?merged = map package ?batch"
    by (rule package_merge_loop)
  have ids: "\<forall>a\<in>set ?merged. package_id (package a) \<noteq> package_id (package e)"
  proof
    fix a assume "a \<in> set ?merged"
    then have "package a \<in> set (map package ?merged)" by simp
    then have "package a \<in> set (map package ?batch)" by (simp only: pk)
    then obtain b where "b \<in> set ?batch" "package b = package a" by auto
    with assms(6) show "package_id (package a) \<noteq> package_id (package e)" by metis
  qed
  have len: "length (fst (update_loop c ?merged)) = length ?batch"
    by (simp add: length_update_loop length_merge_loop)
  from run warn pk ids len show ?thesis by simp
qed

text \<open>
  C8. A first run over a directory with the descriptors of \<open>a\<close> and \<open>z\<close> writes its
  manifest, with both entries, to \<^verbatim>\<open>manifest.json\<close>. Then the descriptor of \<open>z\<close> is
  removed. The second run, with the same arguments, finds the manifest, whose entry
  \<open>z\<close> matches no add-on of the batch. The file holds the object the first run wrote, so
  the loop over it throws before it reaches any entry: the run fails, no warning about
  \<open>z\<close> is among the events, and the manifest is the one the first run left, with the
  entry \<open>z\<close> still in it.
\<close>

theorem dropped_entry_run_fails_on_own_manifest:
  "(case generateManifest ex_collab ''addons'' (Some ''manifest.json'') world_two of
      Inl failure \<Rightarrow> False
    | Inr w1 \<Rightarrow>
        fs w1 ''manifest.json'' =
          Some (File (Json_Manifest [(mk_addon ''a'' ''A'')\<lparr>release := Some ''2.0.0''\<rparr>,
                                     (mk_addon ''z'' ''Z'')\<lparr>release := Some ''2.0.0''\<rparr>]))
        \<and> (case generateManifest ex_collab ''addons'' (Some ''manifest.json'')
                   (w1\<lparr>fs := (fs w1)(''addons'' \<mapsto> Dir [''a.toml''])\<rparr>) of
              Inl (e, w2) \<Rightarrow>
                e = Not_Iterable
                \<and> Core_Warning ''Addon z was removed from manifest!'' \<notin> set (log w2)
                \<and> fs w2 ''manifest.json'' = fs w1 ''manifest.json''
            | Inr w2 \<Rightarrow> False))"
  by (simp add: generateManifest_def existsSync_def readdirSync_def readFileSync_def
        writeFileSync_def parent_directory_def dirname_def output_manifest_def
        merge_existing_def path_join_def emit_def update_def world_two_def mk_world_def
        ex_collab_def mk_addon_def Let_def)

section \<open>Resolution\<close>

text \<open>
  C5. Let the run reach the resolution loop with the add-ons \<open>merged\<close>: the scan ended
  with no validation error and the merge step returned; and let the manifest path, when
  there is one, be writable. Then the run ends normally, whatever the resolvers do. With
  a manifest path, the file there holds afterwards the manifest whose add-ons are, in
  order, every add-on of \<open>merged\<close> as its own resolver left it, whether the resolver
  returned or threw; with no manifest path that manifest is the last thing printed. So
  an add-on whose resolver throws is in the manifest, at its position, with the fields it
  had at the failure, and the error that names its \<open>package.name\<close> and the failure is
  among the events of the run, as an annotation and as a console line. The resolver of
  every add-on is called, whatever happened to the add-ons before it.
\<close>

theorem resolution_failures_isolated:
  assumes "fs w addonsPath = Some (Dir fileNames)"
    and "manifestPath \<noteq> Some []"
    and "collect c addonsPath fileNames [] False w = Inr (batch, False, w1)"
    and "merge_existing manifestPath batch w1 = Inr (merged, w2)"
    and "\<forall>p. manifestPath = Some p \<longrightarrow> can_write w p"
  shows "\<exists>w'. generateManifest c addonsPath manifestPath w = Inr w'
     \<and> (manifestPath = None \<longrightarrow>
          log w' = log w2 @ snd (update_loop c merged)
                     @ [Console_Log_Manifest (map (\<lambda>a. result_addon (snd (update c a))) merged)]
          \<and> fs w' = fs w)
     \<and> (\<forall>p. manifestPath = Some p \<longrightarrow>
          fs w' p = Some (File (Json_Manifest (map (\<lambda>a. result_addon (snd (update c a))) merged)))
          \<and> log w' = log w2 @ snd (update_loop c merged))
     \<and> (\<forall>i<length merged. \<forall>m a'. snd (update c (merged ! i)) = Threw m a' \<longrightarrow>
           map (\<lambda>a. result_addon (snd (update c a))) merged ! i = a'
           \<and> Core_Error (''Addon '' @ package_name (package a') @ '' failed to update: '' @ m) None
               \<in> set (log w')
           \<and> Console_Log (''Addon '' @ package_name (package a') @ '' failed to update: '' @ m)
               \<in> set (log w'))
     \<and> (\<forall>a\<in>set merged. set (fst (update c a)) \<subseteq> set (log w'))"
proof -
  let ?L = "map (\<lambda>a. result_addon (snd (update c a))) merged"
  let ?evs = "snd (update_loop c merged)"
  let ?w3 = "emit ?evs w2"
  have ex: "existsSync w addonsPath" using assms(1) by (rule existsSync_Some)
  have rd: "readdirSync w addonsPath = Inr fileNames"
    using assms(1) by (simp add: readdirSync_def)
  have run: "generateManifest c addonsPath manifestPath w = output_manifest manifestPath ?L ?w3"
    unfolding generateManifest_def using ex rd assms(2,3,4)
    by (simp add: split_beta update_loop_result)
  have fs2: "fs w2 = fs w"
    using collect_fs [OF assms(3)] merge_existing_fs [OF assms(4)] by simp
  have fails: "\<forall>i<length merged. \<forall>m a'. snd (update c (merged ! i)) = Threw m a' \<longrightarrow>
           ?L ! i = a'
           \<and> Core_Error (''Addon '' @ package_name (package a') @ '' failed to update: '' @ m) None
               \<in> set ?evs
           \<and> Console_Log (''Addon '' @ package_name (package a') @ '' failed to update: '' @ m)
               \<in> set ?evs"
  proof (intro allI impI)
    fix i m a' assume i: "i < length merged" and th: "snd (update c (merged ! i)) = Threw m a'"
    from i have "merged ! i \<in> set merged" by simp
    then have "set (failure_events a' m) \<subseteq> set ?evs"
      using th by (rule update_loop_failures)
    moreover have "?L ! i = a'" using i th by simp
    ultimately show "?L ! i = a'
           \<and> Core_Error (''Addon '' @ package_name (package a') @ '' failed to update: '' @ m) None
               \<in> set ?evs
           \<and> Console_Log (''Addon '' @ package_name (package a') @ '' failed to update: '' @ m)
               \<in> set ?evs"
      by (simp add: failure_events_def Let_def)
  qed
  have calls: "\<forall>a\<in>set merged. set (fst (update c a)) \<subseteq> set ?evs"
    using update_loop_calls by blast
  show ?thesis
  proof (cases manifestPath)
    case None
    let ?W = "emit [Console_Log_Manifest ?L] ?w3"
    have r: "generateManifest c addonsPath manifestPath w = Inr ?W"
      using run None by (simp only: output_manifest_console)
    have sub: "set ?evs \<subseteq> set (log ?W)"
      by auto
    have c1: "manifestPath = None \<longrightarrow>
          log ?W = log w2 @ ?evs @ [Console_Log_Manifest ?L] \<and> fs ?W = fs w"
      using fs2 by simp
    have c2: "\<forall>p. manifestPath = Some p \<longrightarrow>
          fs ?W p = Some (File (Json_Manifest ?L)) \<and> log ?W = log w2 @ ?evs"
      using None by simp
    have c3: "\<forall>i<length merged. \<forall>m a'. snd (update c (merged ! i)) = Threw m a' \<longrightarrow>
           ?L ! i = a'
           \<and> Core_Error (''Addon '' @ package_name (package a') @ '' failed to update: '' @ m) None
               \<in> set (log ?W)
           \<and> Console_Log (''Addon '' @ package_name (package a') @ '' failed to update: '' @ m)
               \<in> set (log ?W)"
      using fails sub by blast
    have c4: "\<forall>a\<in>set merged. set (fst (update c a)) \<subseteq> set (log ?W)"
      using calls sub by blast
    from r c1 c2 c3 c4 show ?thesis by blast
  next
    case (Some p)
    let ?W = "?w3\<lparr>fs := (fs ?w3)(p \<mapsto> File (Json_Manifest ?L))\<rparr>"
    from Some assms(2) have p: "p \<noteq> []" by simp
    from Some assms(5) have "can_write w p" by simp
    then have "can_write w2 p" using can_write_fs [OF fs2, of p] by simp
    then have cw: "can_write ?w3 p" by simp
    have r: "generateManifest c addonsPath manifestPath w = Inr ?W"
      using run Some output_manifest_file [OF cw p] by (simp only:)
    have sub: "set ?evs \<subseteq> set (log ?W)"
      by auto
    have c1: "manifestPath = None \<longrightarrow>
          log ?W = log w2 @ ?evs @ [Console_Log_Manifest ?L] \<and> fs ?W = fs w"
      using Some by simp
    have c2: "\<forall>q. manifestPath = Some q \<longrightarrow>
          fs ?W q = Some (File (Json_Manifest ?L)) \<and> log ?W = log w2 @ ?evs"
      using Some by simp
    have c3: "\<forall>i<length merged. \<forall>m a'. snd (update c (merged ! i)) = Threw m a' \<longrightarrow>
           ?L ! i = a'
           \<and> Core_Error (''Addon '' @ package_name (package a') @ '' failed to update: '' @ m) None
               \<in> set (log ?W)
           \<and> Console_Log (''Addon '' @ package_name (package a') @ '' failed to update: '' @ m)
               \<in> set (log ?W)"
      using fails sub by blast
    have c4: "\<forall>a\<in>set merged. set (fst (update c a)) \<subseteq> set (log ?W)"
      using calls sub by blast
    from r c1 c2 c3 c4 show ?thesis by blast
  qed
qed

theorem resolution_failures_isolated_witness:
  "fs world_resolve ''addons'' = Some (Dir [''b.toml'', ''c.toml''])
   \<and> Some ''manifest.json'' \<noteq> Some []
   \<and> collect ex_collab ''addons'' [''b.toml'', ''c.toml''] [] False world_resolve =
        Inr ([addon_b, mk_addon ''c'' ''C''], False,
             emit [Read_File ''addons/b.toml'', Read_File ''addons/c.toml''] world_resolve)
   \<and> merge_existing (Some ''manifest.json'') [addon_b, mk_addon ''c'' ''C'']
        (emit [Read_File ''addons/b.toml'', Read_File ''addons/c.toml''] world_resolve) =
        Inr ([addon_b, mk_addon ''c'' ''C''],
             emit [Read_File ''addons/b.toml'', Read_File ''addons/c.toml''] world_resolve)
   \<and> can_write world_resolve ''manifest.json''
   \<and> snd (update ex_collab addon_b) = Threw ''timeout'' (addon_b\<lparr>prerelease := Some ''3.0.0-rc1''\<rparr>)
   \<and> snd (update ex_collab (mk_addon ''c'' ''C'')) = Returned ((mk_addon ''c'' ''C'')\<lparr>release := Some ''2.0.0''\<rparr>)
   \<and> (\<exists>w'. generateManifest ex_collab ''addons'' (Some ''manifest.json'') world_resolve = Inr w'
         \<and> fs w' ''manifest.json'' =
             Some (File (Json_Manifest
               [addon_b\<lparr>prerelease := Some ''3.0.0-rc1''\<rparr>, (mk_addon ''c'' ''C'')\<lparr>release := Some ''2.0.0''\<rparr>]))
         \<and> Core_Error ''Addon B failed to update: timeout'' None \<in> set (log w')
         \<and> Github_Call (mk_addon ''c'' ''C'') ''owner/repo'' \<in> set (log w'))"
proof -
  let ?w1 = "emit [Read_File ''addons/b.toml'', Read_File ''addons/c.toml''] world_resolve"
  let ?batch = "[addon_b, mk_addon ''c'' ''C'']"
  have h1: "fs world_resolve ''addons'' = Some (Dir [''b.toml'', ''c.toml''])"
    by (simp add: world_resolve_def mk_world_def)
  have h2: "Some ''manifest.json'' \<noteq> Some []"
    by simp
  have h3: "collect ex_collab ''addons'' [''b.toml'', ''c.toml''] [] False world_resolve =
        Inr (?batch, False, ?w1)"
    by (simp add: world_resolve_def mk_world_def readFileSync_def path_join_def ex_collab_def
          addon_b_def emit_def Let_def)
  have h4: "merge_existing (Some ''manifest.json'') ?batch ?w1 = Inr (?batch, ?w1)"
    by (simp add: merge_existing_def existsSync_def world_resolve_def mk_world_def)
  have cw: "can_write world_resolve ''manifest.json''"
    by (simp add: can_write_def parent_directory_def dirname_def world_resolve_def mk_world_def)
  then have h5: "\<forall>p. Some ''manifest.json'' = Some p \<longrightarrow> can_write world_resolve p"
    by simp
  have ub: "snd (update ex_collab addon_b) = Threw ''timeout'' (addon_b\<lparr>prerelease := Some ''3.0.0-rc1''\<rparr>)"
    by (simp add: update_def ex_collab_def addon_b_def mk_addon_def)
  have uc: "snd (update ex_collab (mk_addon ''c'' ''C'')) = Returned ((mk_addon ''c'' ''C'')\<lparr>release := Some ''2.0.0''\<rparr>)"
    by (simp add: update_def ex_collab_def mk_addon_def)
  have fc: "fst (update ex_collab (mk_addon ''c'' ''C'')) = [Github_Call (mk_addon ''c'' ''C'') ''owner/repo'']"
    by (simp add: update_def mk_addon_def)
  have nm: "package_name (package (addon_b\<lparr>prerelease := Some ''3.0.0-rc1''\<rparr>)) = ''B''"
    by (simp add: addon_b_def mk_addon_def)
  from resolution_failures_isolated [OF h1 h2 h3 h4 h5]
  obtain w' where run: "generateManifest ex_collab ''addons'' (Some ''manifest.json'') world_resolve = Inr w'"
    and written_file: "\<forall>p. Some ''manifest.json'' = Some p \<longrightarrow>
          fs w' p = Some (File (Json_Manifest (map (\<lambda>a. result_addon (snd (update ex_collab a))) ?batch)))
          \<and> log w' = log ?w1 @ snd (update_loop ex_collab ?batch)"
    and fails: "\<forall>i<length ?batch. \<forall>m a'. snd (update ex_collab (?batch ! i)) = Threw m a' \<longrightarrow>
           map (\<lambda>a. result_addon (snd (update ex_collab a))) ?batch ! i = a'
           \<and> Core_Error (''Addon '' @ package_name (package a') @ '' failed to update: '' @ m) None
               \<in> set (log w')
           \<and> Console_Log (''Addon '' @ package_name (package a') @ '' failed to update: '' @ m)
               \<in> set (log w')"
    and calls: "\<forall>a\<in>set ?batch. set (fst (update ex_collab a)) \<subseteq> set (log w')"
    by blast
  from written_file ub uc have written: "fs w' ''manifest.json'' =
             Some (File (Json_Manifest
               [addon_b\<lparr>prerelease := Some ''3.0.0-rc1''\<rparr>, (mk_addon ''c'' ''C'')\<lparr>release := Some ''2.0.0''\<rparr>]))"
    by simp
  from fails [rule_format, of 0 "''timeout''" "addon_b\<lparr>prerelease := Some ''3.0.0-rc1''\<rparr>"] ub
  have err: "Core_Error ''Addon B failed to update: timeout'' None \<in> set (log w')"
    unfolding nm by simp
  from calls fc have call: "Github_Call (mk_addon ''c'' ''C'') ''owner/repo'' \<in> set (log w')"
    by simp
  from h1 h2 h3 h4 cw ub uc run written err call show ?thesis by blast
qed

section \<open>The existence check\<close>

text \<open>
  C2. The check of the add-on directory is \<^verbatim>\<open>fs.existsSync\<close>, which holds of a regular
  file as well. At a path that is a regular file the check passes. With no manifest path
  the run then fails only when it lists the directory, with the \<^verbatim>\<open>ENOTDIR\<close> error of
  the file system and not with the error that the add-on directory does not exist; with
  the empty manifest path it fails with the error about the manifest path.
  \<open>missing_directory\<close> is the case the check does catch.
\<close>

theorem regular_file_passes_existence_check:
  "existsSync world_regular_file ''addons''
   \<and> generateManifest ex_collab ''addons'' None world_regular_file =
       Inl (Fs_Error ENOTDIR ''addons'', world_regular_file)
   \<and> generateManifest ex_collab ''addons'' (Some []) world_regular_file =
       Inl (Invalid_Manifest_Path, world_regular_file)"
  by (simp add: generateManifest_def existsSync_def readdirSync_def world_regular_file_def mk_world_def)

section \<open>Loading a manifest the pipeline wrote\<close>

text \<open>
  C1. A first run over a directory with one valid descriptor writes the manifest to
  \<^verbatim>\<open>manifest.json\<close> as the object \<^verbatim>\<open>{ addons: [...] }\<close>. A second run with the same
  arguments finds the file, parses it and iterates over the parsed value as over an
  array; the value is an object, so the loop throws and the run fails, leaving the file
  system as the first run left it. \<open>written_manifest_not_iterable\<close> is the general
  fact: the merge step fails on every file that \<open>output_manifest\<close> has written.
\<close>

theorem second_run_cannot_load_own_manifest:
  "(case generateManifest ex_collab ''addons'' (Some ''manifest.json'') world_first of
      Inl failure \<Rightarrow> False
    | Inr w1 \<Rightarrow>
        fs w1 ''manifest.json'' =
          Some (File (Json_Manifest [(mk_addon ''a'' ''A'')\<lparr>release := Some ''2.0.0''\<rparr>]))
        \<and> (case generateManifest ex_collab ''addons'' (Some ''manifest.json'') w1 of
              Inl (e, w2) \<Rightarrow> e = Not_Iterable \<and> fs w2 = fs w1
            | Inr w2 \<Rightarrow> False))"
  by (simp add: generateManifest_def existsSync_def readdirSync_def readFileSync_def
        writeFileSync_def parent_directory_def dirname_def output_manifest_def
        merge_existing_def path_join_def emit_def update_def world_first_def mk_world_def
        ex_collab_def mk_addon_def Let_def)

end
